theory Spec2Isabelle
  imports Main
begin

section \<open>Values and errors\<close>

text \<open>
  Values that cross a \<open>postMessage\<close> boundary: JSON data, plus \<open>undefined\<close> and
  transferable message ports. Numbers are the integers of the protocol (line numbers,
  character offsets, ids, severities); a port is named by a natural number.
\<close>

datatype jsval =
    JUndefined
  | JNull
  | JBool bool
  | JNum int
  | JStr string
  | JArr "jsval list"
  | JObj "(string \<times> jsval) list"
  | JPort nat

text \<open>
  A thrown JavaScript value. \<open>TypeError\<close> is what a property read on \<open>undefined\<close>
  raises inside the adapter; \<open>Thrown s\<close> is any other failure, carried by the text its
  string conversion gives.
\<close>

datatype exn = TypeError | Thrown string

fun describe :: "exn \<Rightarrow> string" where
  "describe TypeError = ''TypeError''"
| "describe (Thrown s) = s"

text \<open>\<open>String.prototype.startsWith\<close> and one-argument \<open>substring\<close>.\<close>

definition startsWith :: "string \<Rightarrow> string \<Rightarrow> bool" where
  "startsWith s p = (take (length p) s = p)"

definition substring :: "string \<Rightarrow> nat \<Rightarrow> string" where
  "substring s n = drop n s"

section \<open>Coordinate conversion (tyWorker.ts)\<close>

text \<open>
  Line and character numbers are integers of the protocol, far below the size where
  JavaScript's numbers stop being exact, so \<open>+ 1\<close> and \<open>- 1\<close> are integer arithmetic.
\<close>

record LSPPosition =
  line :: int
  character :: int

record TyPosition =
  ty_line :: int
  ty_column :: int

record LSPRange =
  range_start :: LSPPosition
  range_end :: LSPPosition

record TyRange =
  ty_start :: TyPosition
  ty_end :: TyPosition

definition lspToTyPosition :: "LSPPosition \<Rightarrow> TyPosition" where
  "lspToTyPosition pos = \<lparr>ty_line = line pos + 1, ty_column = character pos + 1\<rparr>"

definition tyToLSPPosition :: "TyPosition \<Rightarrow> LSPPosition" where
  "tyToLSPPosition pos = \<lparr>line = ty_line pos - 1, character = ty_column pos - 1\<rparr>"

definition tyToLSPRange :: "TyRange \<Rightarrow> LSPRange" where
  "tyToLSPRange r =
     \<lparr>range_start = tyToLSPPosition \<lparr>ty_line = ty_line (ty_start r), ty_column = ty_column (ty_start r)\<rparr>,
      range_end = tyToLSPPosition \<lparr>ty_line = ty_line (ty_end r), ty_column = ty_column (ty_end r)\<rparr>\<rparr>"

section \<open>Location links (tyWorker.ts)\<close>

record TyLocationLink =
  path :: string
  full_range :: TyRange

record LSPLocation =
  loc_uri :: string
  loc_range :: LSPRange

definition tyLocationLinkToLSPLocation :: "TyLocationLink \<Rightarrow> LSPLocation" where
  "tyLocationLinkToLSPLocation loc =
     (let fullRange = full_range loc;
          uri = path loc;
          uri' = (if startsWith uri ''/file:/'' then ''file://'' @ substring uri 6
                  else if \<not> startsWith uri ''file://'' then ''file://'' @ uri
                  else uri)
      in \<lparr>loc_uri = uri', loc_range = tyToLSPRange fullRange\<rparr>)"

section \<open>Severities\<close>

text \<open>
  The application's severity tag (\<open>'error' | 'warning' | 'info'\<close> in App.tsx) and the
  engine's numeric levels, as the adapter's comment gives them: Error = 2, Warning = 1,
  Info = 0.
\<close>

datatype Severity = SevError | SevWarning | SevInfo

fun tySeverity :: "Severity \<Rightarrow> int" where
  "tySeverity SevError = 2"
| "tySeverity SevWarning = 1"
| "tySeverity SevInfo = 0"

text \<open>The pulled-diagnostics mapping of the adapter: \<open>severity === 2 ? 1 : severity === 1 ? 2 : 3\<close>.\<close>

definition tySeverityToLSP :: "int \<Rightarrow> int" where
  "tySeverityToLSP severity = (if severity = 2 then 1 else if severity = 1 then 2 else 3)"

text \<open>The push-notification intake of App.tsx (\<open>onDiagnostics\<close>).\<close>

definition lspSeverityToApp :: "int \<Rightarrow> Severity" where
  "lspSeverityToApp severity =
     (if severity = 1 then SevError else if severity = 2 then SevWarning else SevInfo)"

section \<open>The native engine (ty\_wasm), as the adapter calls it\<close>

text \<open>
  The engine is not part of the repository: it is a parameter. Every call may raise, so
  every call returns \<open>exn + _\<close>. A workspace is a value of type \<open>'w\<close> and a file handle a
  value of type \<open>'h\<close>; a call that changes the workspace returns the new one.
\<close>

record TyDiagnostic =
  toRange :: "exn + TyRange option"
  severity :: "exn + int"
  message :: "exn + string"

record TyHover =
  markdown :: string
  hover_range :: TyRange

record TyTextEdit =
  edit_range :: TyRange
  new_text :: string

record TyCompletion =
  name :: string
  kind :: "int option"
  detail :: "string option"
  documentation :: "string option"
  insert_text :: "string option"
  additional_text_edits :: "TyTextEdit list option"

record TyDocumentHighlight =
  hl_range :: TyRange
  hl_kind :: int

record TyParameterInformation =
  param_label :: string
  param_documentation :: "string option"

record TySignatureInformation =
  sig_label :: string
  sig_documentation :: "string option"
  parameters :: "TyParameterInformation list"
  active_parameter :: "int option"

record TySignatureHelp =
  signatures :: "TySignatureInformation list"
  active_signature :: "int option"

record ('w, 'h) Engine =
  init :: "exn + unit"
  newWorkspace :: "string \<Rightarrow> exn + 'w"
  openFile :: "'w \<Rightarrow> string \<Rightarrow> string option \<Rightarrow> exn + ('h \<times> 'w)"
  updateFile :: "'w \<Rightarrow> 'h \<Rightarrow> string \<Rightarrow> exn + 'w"
  closeFile :: "'w \<Rightarrow> 'h \<Rightarrow> exn + 'w"
  checkFile :: "'w \<Rightarrow> 'h \<Rightarrow> exn + TyDiagnostic list"
  hover :: "'w \<Rightarrow> 'h \<Rightarrow> TyPosition \<Rightarrow> exn + TyHover option"
  completions :: "'w \<Rightarrow> 'h \<Rightarrow> TyPosition \<Rightarrow> exn + TyCompletion list"
  gotoDefinition :: "'w \<Rightarrow> 'h \<Rightarrow> TyPosition \<Rightarrow> exn + TyLocationLink list"
  gotoReferences :: "'w \<Rightarrow> 'h \<Rightarrow> TyPosition \<Rightarrow> exn + TyLocationLink list"
  gotoTypeDefinition :: "'w \<Rightarrow> 'h \<Rightarrow> TyPosition \<Rightarrow> exn + TyLocationLink list"
  gotoDeclaration :: "'w \<Rightarrow> 'h \<Rightarrow> TyPosition \<Rightarrow> exn + TyLocationLink list"
  documentHighlights :: "'w \<Rightarrow> 'h \<Rightarrow> TyPosition \<Rightarrow> exn + TyDocumentHighlight list"
  signatureHelp :: "'w \<Rightarrow> 'h \<Rightarrow> TyPosition \<Rightarrow> exn + TySignatureHelp option"
  format :: "'w \<Rightarrow> 'h \<Rightarrow> exn + string option"
  sourceText :: "'w \<Rightarrow> 'h \<Rightarrow> exn + string"

text \<open>\<open>Array.prototype.map\<close> with a callback that may raise: the first raise ends it.\<close>

fun mapE :: "('a \<Rightarrow> exn + 'b) \<Rightarrow> 'a list \<Rightarrow> exn + 'b list" where
  "mapE f [] = Inr []"
| "mapE f (x # xs) =
     (case f x of
        Inl e \<Rightarrow> Inl e
      | Inr y \<Rightarrow> (case mapE f xs of Inl e \<Rightarrow> Inl e | Inr ys \<Rightarrow> Inr (y # ys)))"

section \<open>The non-LSP checking path (typecheckerService.ts and the four services)\<close>

datatype TypeChecker = Pyright | BasedPyright | Ty | Pyrefly

fun checkerName :: "TypeChecker \<Rightarrow> string" where
  "checkerName Pyright = ''pyright''"
| "checkerName BasedPyright = ''basedpyright''"
| "checkerName Ty = ''ty''"
| "checkerName Pyrefly = ''pyrefly''"

record DiagnosticRange =
  dr_line :: int
  dr_column :: int

record Diagnostic =
  d_start :: "DiagnosticRange option"
  d_end :: "DiagnosticRange option"
  d_message :: string
  d_severity :: Severity
  d_source :: string

definition checkWithPyright :: "string \<Rightarrow> string \<Rightarrow> exn + Diagnostic list" where
  "checkWithPyright code pythonVersion =
     Inr [\<lparr>d_start = Some \<lparr>dr_line = 1, dr_column = 1\<rparr>,
           d_end = Some \<lparr>dr_line = 1, dr_column = 1\<rparr>,
           d_message = ''Pyright integration not yet implemented (will use server-side approach)'',
           d_severity = SevInfo,
           d_source = ''Pyright''\<rparr>]"

definition checkWithPyrefly :: "string \<Rightarrow> string \<Rightarrow> exn + Diagnostic list" where
  "checkWithPyrefly code pythonVersion = Inr []"

definition checkWithBasedPyright :: "string \<Rightarrow> string \<Rightarrow> exn + Diagnostic list" where
  "checkWithBasedPyright code pythonVersion = Inr []"

text \<open>
  tyService.ts. The module keeps \<open>wasmInitialized\<close> between calls: it is passed in and
  returned. \<open>Severity.Error\<close> and \<open>Severity.Warning\<close> are the engine levels 2 and 1.
\<close>

definition tyDiagnosticToApp :: "TyDiagnostic \<Rightarrow> exn + Diagnostic" where
  "tyDiagnosticToApp diag =
     (case toRange diag of
        Inl e \<Rightarrow> Inl e
      | Inr rng \<Rightarrow>
     (case severity diag of
        Inl e \<Rightarrow> Inl e
      | Inr sev \<Rightarrow>
     (case message diag of
        Inl e \<Rightarrow> Inl e
      | Inr msg \<Rightarrow>
          Inr \<lparr>d_start = (case rng of
                            None \<Rightarrow> None
                          | Some r \<Rightarrow> Some \<lparr>dr_line = ty_line (ty_start r), dr_column = ty_column (ty_start r)\<rparr>),
               d_end = (case rng of
                          None \<Rightarrow> None
                        | Some r \<Rightarrow> Some \<lparr>dr_line = ty_line (ty_end r), dr_column = ty_column (ty_end r)\<rparr>),
               d_message = msg,
               d_severity = (if sev = tySeverity SevError then SevError
                             else if sev = tySeverity SevWarning then SevWarning else SevInfo),
               d_source = ''ty''\<rparr>)))"

definition tyFailure :: "exn \<Rightarrow> Diagnostic list" where
  "tyFailure e =
     [\<lparr>d_start = Some \<lparr>dr_line = 1, dr_column = 1\<rparr>,
       d_end = Some \<lparr>dr_line = 1, dr_column = 1\<rparr>,
       d_message = ''Failed to run ty: '' @ describe e,
       d_severity = SevError,
       d_source = ''ty''\<rparr>]"

definition checkWithTy ::
  "('w, 'h) Engine \<Rightarrow> bool \<Rightarrow> string \<Rightarrow> string \<Rightarrow> (exn + Diagnostic list) \<times> bool" where
  "checkWithTy eng wasmInitialized code pythonVersion =
     (case (if wasmInitialized then Inr () else init eng) of
        Inl e \<Rightarrow> (Inr (tyFailure e), wasmInitialized)
      | Inr _ \<Rightarrow>
          (case newWorkspace eng pythonVersion of
             Inl e \<Rightarrow> (Inr (tyFailure e), True)
           | Inr w \<Rightarrow>
          (case openFile eng w ''test.py'' (Some code) of
             Inl e \<Rightarrow> (Inr (tyFailure e), True)
           | Inr (handle, w1) \<Rightarrow>
          (case checkFile eng w1 handle of
             Inl e \<Rightarrow> (Inr (tyFailure e), True)
           | Inr tyDiagnostics \<Rightarrow>
          (case mapE tyDiagnosticToApp tyDiagnostics of
             Inl e \<Rightarrow> (Inr (tyFailure e), True)
           | Inr diagnostics \<Rightarrow>
          (case closeFile eng w1 handle of
             Inl e \<Rightarrow> (Inr (tyFailure e), True)
           | Inr _ \<Rightarrow> (Inr diagnostics, True)))))))"

definition runTypeChecker ::
  "('w, 'h) Engine \<Rightarrow> bool \<Rightarrow> TypeChecker \<Rightarrow> string \<Rightarrow> string \<Rightarrow> Diagnostic list \<times> bool" where
  "runTypeChecker eng wasmInitialized typeChecker code pythonVersion =
     (let (r, wasmInitialized') =
            (case typeChecker of
               Pyright \<Rightarrow> (checkWithPyright code pythonVersion, wasmInitialized)
             | BasedPyright \<Rightarrow> (checkWithBasedPyright code pythonVersion, wasmInitialized)
             | Ty \<Rightarrow> checkWithTy eng wasmInitialized code pythonVersion
             | Pyrefly \<Rightarrow> (checkWithPyrefly code pythonVersion, wasmInitialized))
      in (case r of
            Inr ds \<Rightarrow> (ds, wasmInitialized')
          | Inl error \<Rightarrow>
              ([\<lparr>d_start = Some \<lparr>dr_line = 1, dr_column = 1\<rparr>,
                 d_end = Some \<lparr>dr_line = 1, dr_column = 1\<rparr>,
                 d_message = ''Error running '' @ checkerName typeChecker @ '': '' @ describe error,
                 d_severity = SevError,
                 d_source = checkerName typeChecker\<rparr>], wasmInitialized')))"

section \<open>The engine adapter (workers/tyWorker.ts)\<close>

subsection \<open>Requests\<close>

text \<open>
  A request as the adapter reads it. \<open>params\<close> is \<open>any\<close> in the source; the model gives
  it the properties the adapter reads, each absent (\<open>None\<close>, JavaScript's \<open>undefined\<close>) or
  present with a value of the type the protocol gives it. Reading a property of an absent
  object raises \<open>TypeError\<close>. Each request is handled to its end before the next one.
\<close>

record InitializationOptions =
  opt_pythonVersion :: "string option"

record LSPTextDocumentItem =
  uri :: string
  doc_text :: "string option"

record Params =
  initializationOptions :: "InitializationOptions option"
  textDocument :: "LSPTextDocumentItem option"
  contentChanges :: "string list option"
  position :: "LSPPosition option"

record LSPRequest =
  req_id :: jsval
  req_method :: string
  req_params :: "Params option"

record ('w, 'h) WorkerState =
  workspace :: "'w option"
  fileHandles :: "string \<rightharpoonup> 'h"
  pythonVersion :: string
  posted :: "jsval list"
  selfClosed :: bool

definition initialState :: "('w, 'h) WorkerState" where
  "initialState =
     \<lparr>workspace = None, fileHandles = Map.empty, pythonVersion = ''3.12'',
      posted = [JObj [(''type'', JStr ''worker-ready'')]], selfClosed = False\<rparr>"

subsection \<open>Plain objects sent back\<close>

definition positionJson :: "LSPPosition \<Rightarrow> jsval" where
  "positionJson p = JObj [(''line'', JNum (line p)), (''character'', JNum (character p))]"

definition rangeJson :: "LSPRange \<Rightarrow> jsval" where
  "rangeJson r = JObj [(''start'', positionJson (range_start r)), (''end'', positionJson (range_end r))]"

definition locationJson :: "LSPLocation \<Rightarrow> jsval" where
  "locationJson l = JObj [(''uri'', JStr (loc_uri l)), (''range'', rangeJson (loc_range l))]"

definition optStr :: "string option \<Rightarrow> jsval" where
  "optStr x = (case x of None \<Rightarrow> JUndefined | Some v \<Rightarrow> JStr v)"

definition optNum :: "int option \<Rightarrow> jsval" where
  "optNum x = (case x of None \<Rightarrow> JUndefined | Some v \<Rightarrow> JNum v)"

text \<open>Truthiness of an optional string, and \<open>x || d\<close> on one.\<close>

fun truthyStr :: "string option \<Rightarrow> bool" where
  "truthyStr (Some (c # cs)) = True"
| "truthyStr _ = False"

definition orElse :: "string option \<Rightarrow> string \<Rightarrow> string" where
  "orElse x d = (case x of Some (c # cs) \<Rightarrow> c # cs | _ \<Rightarrow> d)"

definition markdownJson :: "string option \<Rightarrow> jsval" where
  "markdownJson doc =
     (if truthyStr doc then JObj [(''kind'', JStr ''markdown''), (''value'', optStr doc)]
      else JUndefined)"

text \<open>\<open>String.prototype.split('\n')\<close>.\<close>

fun splitLines :: "string \<Rightarrow> string list" where
  "splitLines [] = [[]]"
| "splitLines (c # cs) =
     (if c = CHR 0x0A then [] # splitLines cs
      else (case splitLines cs of [] \<Rightarrow> [[c]] | l # ls \<Rightarrow> (c # l) # ls))"

subsection \<open>Sending\<close>

text \<open>The \<open>LSPResponse\<close> and \<open>LSPNotification\<close> objects that the three senders build.\<close>

definition response :: "jsval \<Rightarrow> jsval \<Rightarrow> jsval" where
  "response rid result = JObj [(''jsonrpc'', JStr ''2.0''), (''id'', rid), (''result'', result)]"

definition errorResponse :: "jsval \<Rightarrow> int \<Rightarrow> string \<Rightarrow> jsval" where
  "errorResponse rid code msg =
     JObj [(''jsonrpc'', JStr ''2.0''), (''id'', rid),
           (''error'', JObj [(''code'', JNum code), (''message'', JStr msg), (''data'', JUndefined)])]"

definition notification :: "string \<Rightarrow> jsval \<Rightarrow> jsval" where
  "notification m ps = JObj [(''jsonrpc'', JStr ''2.0''), (''method'', JStr m), (''params'', ps)]"

definition sendResponse :: "jsval \<Rightarrow> jsval \<Rightarrow> ('w, 'h) WorkerState \<Rightarrow> ('w, 'h) WorkerState" where
  "sendResponse rid result st = st\<lparr>posted := posted st @ [response rid result]\<rparr>"

definition sendError ::
  "jsval \<Rightarrow> int \<Rightarrow> string \<Rightarrow> ('w, 'h) WorkerState \<Rightarrow> ('w, 'h) WorkerState" where
  "sendError rid code msg st = st\<lparr>posted := posted st @ [errorResponse rid code msg]\<rparr>"

definition sendNotification ::
  "string \<Rightarrow> jsval \<Rightarrow> ('w, 'h) WorkerState \<Rightarrow> ('w, 'h) WorkerState" where
  "sendNotification m ps st = st\<lparr>posted := posted st @ [notification m ps]\<rparr>"

subsection \<open>Reading the parameters\<close>

text \<open>
  \<open>attempt m st k\<close>: evaluate \<open>m\<close>; when it raises, the handler body ends there, in state
  \<open>st\<close>, with the exception; otherwise go on with the value.
\<close>

definition attempt ::
  "exn + 'a \<Rightarrow> 's \<Rightarrow> ('a \<Rightarrow> 's \<times> exn option) \<Rightarrow> 's \<times> exn option" where
  "attempt m st k = (case m of Inl e \<Rightarrow> (st, Some e) | Inr v \<Rightarrow> k v)"

text \<open>\<open>params.textDocument\<close>, \<open>params.textDocument.uri\<close>, \<open>params.contentChanges\<close>, \<open>params.position\<close>.\<close>

definition paramsTextDocument :: "Params option \<Rightarrow> exn + LSPTextDocumentItem option" where
  "paramsTextDocument ps = (case ps of None \<Rightarrow> Inl TypeError | Some p \<Rightarrow> Inr (textDocument p))"

definition paramsUri :: "Params option \<Rightarrow> exn + string" where
  "paramsUri ps =
     (case ps of
        None \<Rightarrow> Inl TypeError
      | Some p \<Rightarrow> (case textDocument p of None \<Rightarrow> Inl TypeError | Some doc \<Rightarrow> Inr (uri doc)))"

definition paramsContentChanges :: "Params option \<Rightarrow> exn + string list option" where
  "paramsContentChanges ps = (case ps of None \<Rightarrow> Inl TypeError | Some p \<Rightarrow> Inr (contentChanges p))"

definition paramsPosition :: "Params option \<Rightarrow> exn + LSPPosition option" where
  "paramsPosition ps = (case ps of None \<Rightarrow> Inl TypeError | Some p \<Rightarrow> Inr (position p))"

text \<open>\<open>lspToTyPosition\<close> applied to a position that may be \<open>undefined\<close>.\<close>

definition lspToTyPositionOf :: "LSPPosition option \<Rightarrow> exn + TyPosition" where
  "lspToTyPositionOf pos = (case pos of None \<Rightarrow> Inl TypeError | Some p \<Rightarrow> Inr (lspToTyPosition p))"

subsection \<open>The cases of \<open>handleRequest\<close>\<close>

definition capabilities :: jsval where
  "capabilities =
     JObj [(''textDocumentSync'', JObj [(''openClose'', JBool True), (''change'', JNum 1)]),
           (''hoverProvider'', JBool True),
           (''completionProvider'', JObj [(''triggerCharacters'', JArr [JStr ''.'', JStr ''('']) ]),
           (''definitionProvider'', JBool True),
           (''referencesProvider'', JBool True),
           (''typeDefinitionProvider'', JBool True),
           (''declarationProvider'', JBool True),
           (''documentHighlightProvider'', JBool True),
           (''signatureHelpProvider'', JObj [(''triggerCharacters'', JArr [JStr ''('', JStr '','']) ]),
           (''documentFormattingProvider'', JBool True),
           (''inlayHintProvider'', JBool True),
           (''codeActionProvider'', JBool True),
           (''diagnosticProvider'',
              JObj [(''interFileDependencies'', JBool True), (''workspaceDiagnostics'', JBool False)])]"

definition handleInitialize ::
  "('w, 'h) Engine \<Rightarrow> jsval \<Rightarrow> Params option \<Rightarrow> ('w, 'h) WorkerState
     \<Rightarrow> ('w, 'h) WorkerState \<times> exn option" where
  "handleInitialize eng rid ps st =
     attempt (init eng) st (\<lambda>_.
       let initOptions = (case ps of None \<Rightarrow> None | Some p \<Rightarrow> initializationOptions p);
           pv = orElse (case initOptions of None \<Rightarrow> None | Some opts \<Rightarrow> opt_pythonVersion opts) ''3.12'';
           st1 = st\<lparr>pythonVersion := pv\<rparr>
       in attempt (newWorkspace eng pv) st1 (\<lambda>w.
            (sendResponse rid (JObj [(''capabilities'', capabilities)]) (st1\<lparr>workspace := Some w\<rparr>),
             None)))"

definition handleInitialized :: "('w, 'h) WorkerState \<Rightarrow> ('w, 'h) WorkerState \<times> exn option" where
  "handleInitialized st =
     (sendNotification ''window/logMessage''
        (JObj [(''type'', JNum 3), (''message'', JStr ''ty language server initialized'')]) st,
      None)"

definition handleDidOpen ::
  "('w, 'h) Engine \<Rightarrow> Params option \<Rightarrow> ('w, 'h) WorkerState \<Rightarrow> ('w, 'h) WorkerState \<times> exn option" where
  "handleDidOpen eng ps st =
     attempt (paramsTextDocument ps) st (\<lambda>doc.
       case workspace st of
         None \<Rightarrow> (st, None)
       | Some w \<Rightarrow>
           (case doc of
              None \<Rightarrow> (st, Some TypeError)
            | Some d \<Rightarrow>
                attempt (openFile eng w (uri d) (doc_text d)) st (\<lambda>(handle, w').
                  (st\<lparr>workspace := Some w', fileHandles := (fileHandles st)(uri d \<mapsto> handle)\<rparr>,
                   None))))"

definition handleDidChange ::
  "('w, 'h) Engine \<Rightarrow> Params option \<Rightarrow> ('w, 'h) WorkerState \<Rightarrow> ('w, 'h) WorkerState \<times> exn option" where
  "handleDidChange eng ps st =
     attempt (paramsUri ps) st (\<lambda>u.
     attempt (paramsContentChanges ps) st (\<lambda>changes.
       case workspace st of
         None \<Rightarrow> (st, None)
       | Some w \<Rightarrow>
           (case fileHandles st u of
              None \<Rightarrow> (st, None)
            | Some handle \<Rightarrow>
                (case changes of
                   None \<Rightarrow> (st, Some TypeError)
                 | Some [] \<Rightarrow> (st, None)
                 | Some (change # _) \<Rightarrow>
                     attempt (updateFile eng w handle change) st (\<lambda>w'.
                       (st\<lparr>workspace := Some w'\<rparr>, None))))))"

definition handleDidClose ::
  "('w, 'h) Engine \<Rightarrow> Params option \<Rightarrow> ('w, 'h) WorkerState \<Rightarrow> ('w, 'h) WorkerState \<times> exn option" where
  "handleDidClose eng ps st =
     attempt (paramsUri ps) st (\<lambda>u.
       case workspace st of
         None \<Rightarrow> (st, None)
       | Some w \<Rightarrow>
           (case fileHandles st u of
              None \<Rightarrow> (st, None)
            | Some handle \<Rightarrow>
                attempt (closeFile eng w handle) st (\<lambda>w'.
                  (st\<lparr>workspace := Some w', fileHandles := (fileHandles st)(u := None)\<rparr>, None))))"

text \<open>
  The opening of every document request: read \<open>params.textDocument.uri\<close>, look the handle
  up, and answer \<open>missing\<close> when \<open>!workspace || !handle\<close>.
\<close>

definition withDocument ::
  "Params option \<Rightarrow> ('w, 'h) WorkerState \<Rightarrow> ('w, 'h) WorkerState \<times> exn option
     \<Rightarrow> ('w \<Rightarrow> 'h \<Rightarrow> ('w, 'h) WorkerState \<times> exn option)
     \<Rightarrow> ('w, 'h) WorkerState \<times> exn option" where
  "withDocument ps st missing k =
     attempt (paramsUri ps) st (\<lambda>u.
       case workspace st of
         None \<Rightarrow> missing
       | Some w \<Rightarrow> (case fileHandles st u of None \<Rightarrow> missing | Some handle \<Rightarrow> k w handle))"

text \<open>\<open>const tyPos = lspToTyPosition(params.position)\<close>.\<close>

definition withPosition ::
  "Params option \<Rightarrow> 's \<Rightarrow> (TyPosition \<Rightarrow> 's \<times> exn option) \<Rightarrow> 's \<times> exn option" where
  "withPosition ps st k =
     attempt (paramsPosition ps) st (\<lambda>pos. attempt (lspToTyPositionOf pos) st k)"

definition toLSPDiagnostic :: "TyDiagnostic \<Rightarrow> exn + jsval" where
  "toLSPDiagnostic diag =
     (case toRange diag of
        Inl e \<Rightarrow> Inl e
      | Inr rng \<Rightarrow>
     (case severity diag of
        Inl e \<Rightarrow> Inl e
      | Inr sev \<Rightarrow>
     (case message diag of
        Inl e \<Rightarrow> Inl e
      | Inr msg \<Rightarrow>
          Inr (JObj [(''range'',
                        (case rng of
                           Some r \<Rightarrow> rangeJson (tyToLSPRange r)
                         | None \<Rightarrow>
                             JObj [(''start'', JObj [(''line'', JNum 0), (''character'', JNum 0)]),
                                   (''end'', JObj [(''line'', JNum 0), (''character'', JNum 0)])])),
                     (''severity'', JNum (tySeverityToLSP sev)),
                     (''message'', JStr msg),
                     (''source'', JStr ''ty'')]))))"

definition handleDiagnostic ::
  "('w, 'h) Engine \<Rightarrow> jsval \<Rightarrow> Params option \<Rightarrow> ('w, 'h) WorkerState
     \<Rightarrow> ('w, 'h) WorkerState \<times> exn option" where
  "handleDiagnostic eng rid ps st =
     withDocument ps st
       (sendResponse rid (JObj [(''kind'', JStr ''full''), (''items'', JArr [])]) st, None)
       (\<lambda>w handle.
          attempt (checkFile eng w handle) st (\<lambda>diagnostics.
          attempt (mapE toLSPDiagnostic diagnostics) st (\<lambda>lspDiagnostics.
            (sendResponse rid (JObj [(''kind'', JStr ''full''), (''items'', JArr lspDiagnostics)]) st,
             None))))"

definition handleHover ::
  "('w, 'h) Engine \<Rightarrow> jsval \<Rightarrow> Params option \<Rightarrow> ('w, 'h) WorkerState
     \<Rightarrow> ('w, 'h) WorkerState \<times> exn option" where
  "handleHover eng rid ps st =
     withDocument ps st (sendResponse rid JNull st, None)
       (\<lambda>w handle.
          withPosition ps st (\<lambda>tyPos.
          attempt (hover eng w handle tyPos) st (\<lambda>hov.
            case hov of
              Some h \<Rightarrow>
                (sendResponse rid
                   (JObj [(''contents'', JObj [(''kind'', JStr ''markdown''), (''value'', JStr (markdown h))]),
                          (''range'', rangeJson (tyToLSPRange (hover_range h)))]) st,
                 None)
            | None \<Rightarrow> (sendResponse rid JNull st, None))))"

definition textEditJson :: "TyTextEdit \<Rightarrow> jsval" where
  "textEditJson edit =
     JObj [(''range'', rangeJson (tyToLSPRange (edit_range edit))), (''newText'', JStr (new_text edit))]"

definition completionJson :: "TyCompletion \<Rightarrow> jsval" where
  "completionJson compl =
     JObj [(''label'', JStr (name compl)),
           (''kind'', JNum (case kind compl of None \<Rightarrow> 1 | Some k \<Rightarrow> k)),
           (''detail'', optStr (detail compl)),
           (''documentation'', markdownJson (documentation compl)),
           (''insertText'', JStr (orElse (insert_text compl) (name compl))),
           (''additionalTextEdits'',
              (case additional_text_edits compl of
                 None \<Rightarrow> JUndefined
               | Some edits \<Rightarrow> JArr (map textEditJson edits)))]"

definition handleCompletion ::
  "('w, 'h) Engine \<Rightarrow> jsval \<Rightarrow> Params option \<Rightarrow> ('w, 'h) WorkerState
     \<Rightarrow> ('w, 'h) WorkerState \<times> exn option" where
  "handleCompletion eng rid ps st =
     withDocument ps st (sendResponse rid (JObj [(''items'', JArr [])]) st, None)
       (\<lambda>w handle.
          withPosition ps st (\<lambda>tyPos.
          attempt (completions eng w handle tyPos) st (\<lambda>comps.
            (sendResponse rid (JObj [(''items'', JArr (map completionJson comps))]) st, None))))"

text \<open>
  The four location requests (definition, references, typeDefinition, declaration) are
  the same code around a different engine call, here the argument \<open>goto\<close>.
\<close>

definition handleLocations ::
  "('w \<Rightarrow> 'h \<Rightarrow> TyPosition \<Rightarrow> exn + TyLocationLink list) \<Rightarrow> jsval \<Rightarrow> Params option
     \<Rightarrow> ('w, 'h) WorkerState \<Rightarrow> ('w, 'h) WorkerState \<times> exn option" where
  "handleLocations goto rid ps st =
     withDocument ps st (sendResponse rid (JArr []) st, None)
       (\<lambda>w handle.
          withPosition ps st (\<lambda>tyPos.
          attempt (goto w handle tyPos) st (\<lambda>locations.
            (sendResponse rid
               (JArr (map (\<lambda>loc. locationJson (tyLocationLinkToLSPLocation loc)) locations)) st,
             None))))"

definition handleDocumentHighlight ::
  "('w, 'h) Engine \<Rightarrow> jsval \<Rightarrow> Params option \<Rightarrow> ('w, 'h) WorkerState
     \<Rightarrow> ('w, 'h) WorkerState \<times> exn option" where
  "handleDocumentHighlight eng rid ps st =
     withDocument ps st (sendResponse rid (JArr []) st, None)
       (\<lambda>w handle.
          withPosition ps st (\<lambda>tyPos.
          attempt (documentHighlights eng w handle tyPos) st (\<lambda>highlights.
            (sendResponse rid
               (JArr (map (\<lambda>hl. JObj [(''range'', rangeJson (tyToLSPRange (hl_range hl))),
                                        (''kind'', JNum (hl_kind hl))]) highlights)) st,
             None))))"

definition parameterJson :: "TyParameterInformation \<Rightarrow> jsval" where
  "parameterJson param =
     JObj [(''label'', JStr (param_label param)),
           (''documentation'', markdownJson (param_documentation param))]"

definition signatureJson :: "TySignatureInformation \<Rightarrow> jsval" where
  "signatureJson sig =
     JObj [(''label'', JStr (sig_label sig)),
           (''documentation'', markdownJson (sig_documentation sig)),
           (''parameters'', JArr (map parameterJson (parameters sig))),
           (''activeParameter'', optNum (active_parameter sig))]"

definition handleSignatureHelp ::
  "('w, 'h) Engine \<Rightarrow> jsval \<Rightarrow> Params option \<Rightarrow> ('w, 'h) WorkerState
     \<Rightarrow> ('w, 'h) WorkerState \<times> exn option" where
  "handleSignatureHelp eng rid ps st =
     withDocument ps st (sendResponse rid JNull st, None)
       (\<lambda>w handle.
          withPosition ps st (\<lambda>tyPos.
          attempt (signatureHelp eng w handle tyPos) st (\<lambda>sigHelp.
            case sigHelp of
              Some sh \<Rightarrow>
                (sendResponse rid
                   (JObj [(''signatures'', JArr (map signatureJson (signatures sh))),
                          (''activeSignature'',
                             JNum (case active_signature sh of None \<Rightarrow> 0 | Some n \<Rightarrow> n))]) st,
                 None)
            | None \<Rightarrow> (sendResponse rid JNull st, None))))"

definition handleFormatting ::
  "('w, 'h) Engine \<Rightarrow> jsval \<Rightarrow> Params option \<Rightarrow> ('w, 'h) WorkerState
     \<Rightarrow> ('w, 'h) WorkerState \<times> exn option" where
  "handleFormatting eng rid ps st =
     withDocument ps st (sendResponse rid (JArr []) st, None)
       (\<lambda>w handle.
          attempt (format eng w handle) st (\<lambda>formatted.
            if truthyStr formatted then
              attempt (sourceText eng w handle) st (\<lambda>currentText.
                let lines = splitLines currentText;
                    lastLine = int (length lines) - 1;
                    lastChar = int (length (lines ! nat lastLine))
                in (sendResponse rid
                      (JArr [JObj [(''range'',
                                      JObj [(''start'', JObj [(''line'', JNum 0), (''character'', JNum 0)]),
                                            (''end'', JObj [(''line'', JNum lastLine),
                                                            (''character'', JNum lastChar)])]),
                                   (''newText'', optStr formatted)]]) st,
                    None))
            else (sendResponse rid (JArr []) st, None)))"

subsection \<open>\<open>handleRequest\<close> and the message listener\<close>

text \<open>The \<open>switch\<close> inside the \<open>try\<close>: the final state, and the exception when the body raised.\<close>

definition handleBody ::
  "('w, 'h) Engine \<Rightarrow> LSPRequest \<Rightarrow> ('w, 'h) WorkerState \<Rightarrow> ('w, 'h) WorkerState \<times> exn option" where
  "handleBody eng request st =
     (let rid = req_id request; m = req_method request; ps = req_params request in
      if m = ''initialize'' then handleInitialize eng rid ps st
      else if m = ''initialized'' then handleInitialized st
      else if m = ''textDocument/didOpen'' then handleDidOpen eng ps st
      else if m = ''textDocument/didChange'' then handleDidChange eng ps st
      else if m = ''textDocument/didClose'' then handleDidClose eng ps st
      else if m = ''textDocument/diagnostic'' then handleDiagnostic eng rid ps st
      else if m = ''textDocument/hover'' then handleHover eng rid ps st
      else if m = ''textDocument/completion'' then handleCompletion eng rid ps st
      else if m = ''textDocument/definition'' then handleLocations (gotoDefinition eng) rid ps st
      else if m = ''textDocument/references'' then handleLocations (gotoReferences eng) rid ps st
      else if m = ''textDocument/typeDefinition'' then handleLocations (gotoTypeDefinition eng) rid ps st
      else if m = ''textDocument/declaration'' then handleLocations (gotoDeclaration eng) rid ps st
      else if m = ''textDocument/documentHighlight'' then handleDocumentHighlight eng rid ps st
      else if m = ''textDocument/signatureHelp'' then handleSignatureHelp eng rid ps st
      else if m = ''textDocument/formatting'' then handleFormatting eng rid ps st
      else if m = ''shutdown'' then (sendResponse rid JNull st, None)
      else if m = ''exit'' then (st\<lparr>selfClosed := True\<rparr>, None)
      else (sendError rid (- 32601) (''Method not found: '' @ m) st, None))"

definition handleRequest ::
  "('w, 'h) Engine \<Rightarrow> LSPRequest \<Rightarrow> ('w, 'h) WorkerState \<Rightarrow> ('w, 'h) WorkerState" where
  "handleRequest eng request st =
     (case handleBody eng request st of
        (st', None) \<Rightarrow> st'
      | (st', Some error) \<Rightarrow>
          sendError (req_id request) (- 32603) (''Internal error: '' @ describe error) st')"




section \<open>The host, as the transports use it\<close>

text \<open>A property read on a posted value (\<open>undefined\<close> when it is not there).\<close>

fun getProp :: "jsval \<Rightarrow> string \<Rightarrow> jsval" where
  "getProp (JObj kvs) k = (case map_of kvs k of None \<Rightarrow> JUndefined | Some v \<Rightarrow> v)"
| "getProp _ k = JUndefined"

text \<open>
  \<open>typeof data === 'object'\<close> for a truthy value: an array, an object or a port.
\<close>

fun isObject :: "jsval \<Rightarrow> bool" where
  "isObject (JArr _) = True"
| "isObject (JObj _) = True"
| "isObject (JPort _) = True"
| "isObject _ = False"

text \<open>The ports inside a value: structured cloning raises unless each one is transferred.\<close>

fun portsOf :: "jsval \<Rightarrow> nat list" where
  "portsOf (JArr vs) = concat (map portsOf vs)"
| "portsOf (JObj kvs) = concat (map (\<lambda>kv. portsOf (snd kv)) kvs)"
| "portsOf (JPort p) = [p]"
| "portsOf _ = []"

text \<open>An assignment \<open>obj[k] = v\<close> on a plain object: in place when the key exists, else at the end.\<close>

fun setProp :: "(string \<times> jsval) list \<Rightarrow> string \<Rightarrow> jsval \<Rightarrow> (string \<times> jsval) list" where
  "setProp [] k v = [(k, v)]"
| "setProp ((k', v') # kvs) k v = (if k' = k then (k, v) # kvs else (k', v') # setProp kvs k v)"

text \<open>The decimal text of a number, as a template literal gives it.\<close>

fun showNat :: "nat \<Rightarrow> string" where
  "showNat n = (if n < 10 then [''0123456789'' ! n]
                else showNat (n div 10) @ [''0123456789'' ! (n mod 10)])"

text \<open>
  The \<open>LSPMessage\<close> interface of BasedPyrightTransport.ts: what \<open>send\<close> casts the parsed
  text of a message to.
\<close>

record LSPMessage =
  msg_jsonrpc :: string
  msg_id :: jsval
  msg_method :: "string option"
  msg_params :: "(string \<times> jsval) list option"
  msg_result :: jsval
  msg_error :: jsval

text \<open>What a \<open>postMessage\<close> carries to a worker: a control object, a parsed message, or text.\<close>

datatype Posted = PostedValue jsval | PostedMessage LSPMessage | PostedText string

text \<open>
  What a transport does to the world outside it, in order. Workers are numbered in the
  order of the \<open>new Worker\<close> calls; subscribed handlers are named by numbers.
\<close>

datatype Effect =
    NewWorker nat string
  | PostMessage nat Posted "nat list"
  | Terminate nat
  | Deliver nat string
  | OnError
  | OnClose

text \<open>
  The host functions the transports call. \<open>jsonParse\<close> is \<open>JSON.parse\<close> on the text of a
  message (\<open>None\<close> when it raises); \<open>workerCtor n\<close> tells whether the \<open>n\<close>-th \<open>new Worker\<close>
  call raises; \<open>typeshedFiles\<close> is the bundled \<open>typeshed.json\<close>.
\<close>

record Env =
  jsonParse :: "string \<Rightarrow> LSPMessage option"
  jsonStringify :: "jsval \<Rightarrow> string"
  workerCtor :: "nat \<Rightarrow> exn option"
  typeshedFiles :: "(string \<times> string) list"

text \<open>The ports this side has already transferred away: transferring one again raises.\<close>

fun transferred :: "Effect list \<Rightarrow> nat list" where
  "transferred [] = []"
| "transferred (PostMessage w m ports # es) = ports @ transferred es"
| "transferred (e # es) = transferred es"

text \<open>A promise settles once.\<close>

datatype Ready = Pending | Resolved | Rejected exn

definition settle :: "Ready \<Rightarrow> Ready \<Rightarrow> Ready" where
  "settle r new = (if r = Pending then new else r)"

section \<open>The multi-worker transport (services/lsp/BasedPyrightTransport.ts)\<close>

text \<open>
  The callbacks of the options are given or not; \<open>onClose\<close>, when given, returns or
  raises. Console output is left out.
\<close>

record BasedPyrightTransportOptions =
  bp_pythonVersion :: "string option"
  bp_onError :: bool
  bp_onClose :: "exn option option"

record BasedPyrightTransport =
  foregroundWorker :: "nat option"
  backgroundWorkers :: "nat list"
  handlers :: "nat list"
  closed :: bool
  ready :: Ready
  options :: BasedPyrightTransportOptions
  nextWorker :: nat
  trace :: "Effect list"

text \<open>The constructor with \<open>initializeWorker\<close>; \<open>n\<close> is the number of workers made so far.\<close>

definition newBasedPyrightTransport ::
  "Env \<Rightarrow> nat \<Rightarrow> BasedPyrightTransportOptions \<Rightarrow> BasedPyrightTransport" where
  "newBasedPyrightTransport env n opts =
     (let t = \<lparr>foregroundWorker = None, backgroundWorkers = [], handlers = [], closed = False,
               ready = Pending, options = opts, nextWorker = n, trace = []\<rparr>
      in case workerCtor env n of
           Some error \<Rightarrow> t\<lparr>nextWorker := Suc n, ready := Rejected error\<rparr>
         | None \<Rightarrow>
             t\<lparr>foregroundWorker := Some n, nextWorker := Suc n,
               trace := [NewWorker n ''BasedPyright-foreground'',
                         PostMessage n
                           (PostedValue (JObj [(''type'', JStr ''browser/boot''),
                                               (''mode'', JStr ''foreground'')])) []]\<rparr>)"

text \<open>The \<open>setTimeout\<close> callback and the worker's \<open>error\<close> event.\<close>

definition readyTimer :: "BasedPyrightTransport \<Rightarrow> BasedPyrightTransport" where
  "readyTimer t = (if \<not> closed t then t\<lparr>ready := settle (ready t) Resolved\<rparr> else t)"

definition workerError :: "string \<Rightarrow> BasedPyrightTransport \<Rightarrow> BasedPyrightTransport" where
  "workerError msg t =
     (let t1 = (if bp_onError (options t) then t\<lparr>trace := trace t @ [OnError]\<rparr> else t)
      in t1\<lparr>ready := settle (ready t1) (Rejected (Thrown (''Error: '' @ msg)))\<rparr>)"

definition createBackgroundWorker :: "Env \<Rightarrow> jsval \<Rightarrow> BasedPyrightTransport \<Rightarrow> BasedPyrightTransport" where
  "createBackgroundWorker env data t =
     (case workerCtor env (nextWorker t) of
        Some error \<Rightarrow> t\<lparr>nextWorker := Suc (nextWorker t)\<rparr>
      | None \<Rightarrow>
          (let background = nextWorker t;
               t1 = t\<lparr>nextWorker := Suc (nextWorker t),
                      backgroundWorkers := backgroundWorkers t @ [background],
                      trace := trace t @
                        [NewWorker background
                           (''BasedPyright-background-'' @ showNat (length (backgroundWorkers t) + 1))]\<rparr>
           in case getProp data ''port'' of
                JPort port \<Rightarrow>
                  if port \<in> set (transferred (trace t))
                     \<or> \<not> set (portsOf (getProp data ''initialData'')) \<subseteq> {port}
                  then t1
                  else t1\<lparr>trace := trace t1 @
                         [PostMessage background
                            (PostedValue (JObj [(''type'', JStr ''browser/boot''),
                                                (''mode'', JStr ''background''),
                                                (''initialData'', getProp data ''initialData''),
                                                (''port'', JPort port)]))
                            [port]]\<rparr>
              | _ \<Rightarrow> t1))"

definition handleMessage :: "Env \<Rightarrow> jsval \<Rightarrow> BasedPyrightTransport \<Rightarrow> BasedPyrightTransport" where
  "handleMessage env data t =
     (if \<not> isObject data then t
      else if getProp data ''type'' = JStr ''browser/newWorker'' then createBackgroundWorker env data t
      else if getProp data ''jsonrpc'' = JStr ''2.0'' then
        t\<lparr>trace := trace t @ map (\<lambda>handler. Deliver handler (jsonStringify env data)) (handlers t)\<rparr>
      else t)"

text \<open>The \<open>initializationOptions\<close> that \<open>send\<close> injects into an \<open>initialize\<close> request.\<close>

definition virtualFiles :: "Env \<Rightarrow> BasedPyrightTransportOptions \<Rightarrow> (string \<times> jsval) list" where
  "virtualFiles env opts =
     (let pv = orElse (bp_pythonVersion opts) ''3.12'';
          files0 = [(''/workspace/main.py'', JStr [])];
          files1 = foldl (\<lambda>files entry. setProp files (''/workspace'' @ fst entry) (JStr (snd entry)))
                     files0 (typeshedFiles env);
          files2 = setProp files1 ''/workspace/.root'' (JStr [])
      in setProp files2 ''/workspace/pyrightconfig.json''
           (JStr (jsonStringify env
              (JObj [(''pythonVersion'', JStr pv),
                     (''typeCheckingMode'', JStr ''strict''),
                     (''typeshedPath'', JStr ''/workspace/typeshed''),
                     (''stubPath'', JStr []),
                     (''reportMissingModuleSource'', JBool False)]))))"

definition interceptInitialize :: "Env \<Rightarrow> BasedPyrightTransportOptions \<Rightarrow> LSPMessage \<Rightarrow> LSPMessage" where
  "interceptInitialize env opts parsed =
     (case msg_params parsed of
        Some ps \<Rightarrow>
          if msg_method parsed = Some ''initialize'' then
            parsed\<lparr>msg_params := Some
              (setProp
                 (setProp
                    (setProp ps ''rootUri'' (JStr ''file:///workspace''))
                    ''workspaceFolders''
                    (JArr [JObj [(''uri'', JStr ''file:///workspace''), (''name'', JStr ''workspace'')]]))
                 ''initializationOptions''
                 (JObj [(''files'', JObj (virtualFiles env opts))]))\<rparr>
          else parsed
      | None \<Rightarrow> parsed)"

text \<open>\<open>send\<close>, \<open>subscribe\<close>, \<open>unsubscribe\<close>, \<open>close\<close>, \<open>isClosed\<close>: the exception raised, if any, and the state.\<close>

definition send :: "Env \<Rightarrow> string \<Rightarrow> BasedPyrightTransport \<Rightarrow> exn option \<times> BasedPyrightTransport" where
  "send env msgText t =
     (if closed t then (Some (Thrown ''Error: Transport is closed''), t)
      else case foregroundWorker t of
             None \<Rightarrow> (Some (Thrown ''Error: Worker not initialized''), t)
           | Some w \<Rightarrow>
               (case jsonParse env msgText of
                  Some parsed \<Rightarrow>
                    (None, t\<lparr>trace := trace t @
                       [PostMessage w (PostedMessage (interceptInitialize env (options t) parsed)) []]\<rparr>)
                | None \<Rightarrow> (None, t\<lparr>trace := trace t @ [PostMessage w (PostedText msgText) []]\<rparr>)))"

definition subscribe :: "nat \<Rightarrow> BasedPyrightTransport \<Rightarrow> BasedPyrightTransport" where
  "subscribe handler t =
     (if handler \<in> set (handlers t) then t else t\<lparr>handlers := handlers t @ [handler]\<rparr>)"

definition unsubscribe :: "nat \<Rightarrow> BasedPyrightTransport \<Rightarrow> BasedPyrightTransport" where
  "unsubscribe handler t = t\<lparr>handlers := removeAll handler (handlers t)\<rparr>"

definition close :: "BasedPyrightTransport \<Rightarrow> exn option \<times> BasedPyrightTransport" where
  "close t =
     (if closed t then (None, t)
      else
        (let t1 = t\<lparr>closed := True\<rparr>;
             t2 = (case foregroundWorker t1 of
                     Some w \<Rightarrow> t1\<lparr>foregroundWorker := None, trace := trace t1 @ [Terminate w]\<rparr>
                   | None \<Rightarrow> t1);
             t3 = t2\<lparr>backgroundWorkers := [],
                     trace := trace t2 @ map Terminate (backgroundWorkers t2)\<rparr>;
             t4 = t3\<lparr>handlers := []\<rparr>
         in case bp_onClose (options t4) of
              None \<Rightarrow> (None, t4)
            | Some outcome \<Rightarrow> (outcome, t4\<lparr>trace := trace t4 @ [OnClose]\<rparr>)))"

definition isClosed :: "BasedPyrightTransport \<Rightarrow> bool" where
  "isClosed t = closed t"

text \<open>
  The calls and events of a transport's life, for statements about all of them. The
  \<open>message\<close> and \<open>error\<close> events come from the foreground worker: there are none once it
  has been terminated and dropped.
\<close>

datatype BpOp =
    BpSend string
  | BpSubscribe nat
  | BpUnsubscribe nat
  | BpClose
  | BpMessage jsval
  | BpError string
  | BpTimer

definition bpStep :: "Env \<Rightarrow> BasedPyrightTransport \<Rightarrow> BpOp \<Rightarrow> BasedPyrightTransport" where
  "bpStep env t op =
     (case op of
        BpSend m \<Rightarrow> snd (send env m t)
      | BpSubscribe handler \<Rightarrow> subscribe handler t
      | BpUnsubscribe handler \<Rightarrow> unsubscribe handler t
      | BpClose \<Rightarrow> snd (close t)
      | BpMessage data \<Rightarrow> (if foregroundWorker t = None then t else handleMessage env data t)
      | BpError m \<Rightarrow> (if foregroundWorker t = None then t else workerError m t)
      | BpTimer \<Rightarrow> readyTimer t)"

definition bpRun :: "Env \<Rightarrow> BasedPyrightTransport \<Rightarrow> BpOp list \<Rightarrow> BasedPyrightTransport" where
  "bpRun env t ops = foldl (bpStep env) t ops"

text \<open>The workers a transport holds.\<close>

definition workers :: "BasedPyrightTransport \<Rightarrow> nat list" where
  "workers t = (case foregroundWorker t of None \<Rightarrow> [] | Some w \<Rightarrow> [w]) @ backgroundWorkers t"

text \<open>A spawn request of the primary worker, and the boot message a satellite gets for it.\<close>

definition spawnRequest :: "jsval \<times> nat \<Rightarrow> jsval" where
  "spawnRequest r =
     JObj [(''type'', JStr ''browser/newWorker''), (''initialData'', fst r), (''port'', JPort (snd r))]"

definition bootMessage :: "jsval \<times> nat \<Rightarrow> Posted" where
  "bootMessage r =
     PostedValue (JObj [(''type'', JStr ''browser/boot''), (''mode'', JStr ''background''),
                        (''initialData'', fst r), (''port'', JPort (snd r))])"

section \<open>The single-worker transport (services/lsp/WebWorkerTransport.ts)\<close>

text \<open>
  \<open>ww_given\<close> is the \<open>Worker\<close> instance passed in, if one was; otherwise the constructor
  makes the worker. \<open>listening\<close> says that the \<open>message\<close> and \<open>error\<close> listeners are attached.
\<close>

record WebWorkerTransportOptions =
  ww_given :: "nat option"
  ww_onError :: bool
  ww_onClose :: "exn option option"

record WebWorkerTransport =
  worker :: nat
  ww_handlers :: "nat list"
  ww_closed :: bool
  listening :: bool
  config :: WebWorkerTransportOptions
  ww_trace :: "Effect list"


definition messageListener :: "Env \<Rightarrow> jsval \<Rightarrow> WebWorkerTransport \<Rightarrow> WebWorkerTransport" where
  "messageListener env data t =
     (if isObject data \<and> getProp data ''jsonrpc'' = JStr ''2.0'' then
        t\<lparr>ww_trace := ww_trace t @
           map (\<lambda>handler. Deliver handler (jsonStringify env data)) (ww_handlers t)\<rparr>
      else case data of
             JStr s \<Rightarrow>
               (case jsonParse env s of
                  Some parsed \<Rightarrow>
                    if msg_jsonrpc parsed = ''2.0'' then
                      t\<lparr>ww_trace := ww_trace t @ map (\<lambda>handler. Deliver handler s) (ww_handlers t)\<rparr>
                    else t
                | None \<Rightarrow> t)
           | _ \<Rightarrow> t)"

definition errorListener :: "WebWorkerTransport \<Rightarrow> WebWorkerTransport" where
  "errorListener t = (if ww_onError (config t) then t\<lparr>ww_trace := ww_trace t @ [OnError]\<rparr> else t)"

definition handleClose :: "WebWorkerTransport \<Rightarrow> WebWorkerTransport" where
  "handleClose t = t\<lparr>ww_closed := True, listening := False, ww_handlers := []\<rparr>"

text \<open>The \<open>messageerror\<close> listener: \<open>handleClose\<close>, then the \<open>onClose\<close> callback if there is one.\<close>

definition messageErrorListener :: "WebWorkerTransport \<Rightarrow> exn option \<times> WebWorkerTransport" where
  "messageErrorListener t =
     (let t1 = handleClose t
      in case ww_onClose (config t1) of
           None \<Rightarrow> (None, t1)
         | Some outcome \<Rightarrow> (outcome, t1\<lparr>ww_trace := ww_trace t1 @ [OnClose]\<rparr>))"

definition ww_send :: "Env \<Rightarrow> string \<Rightarrow> WebWorkerTransport \<Rightarrow> exn option \<times> WebWorkerTransport" where
  "ww_send env msgText t =
     (if ww_closed t then (Some (Thrown ''Error: Transport is closed''), t)
      else case jsonParse env msgText of
             Some parsed \<Rightarrow>
               (None, t\<lparr>ww_trace := ww_trace t @ [PostMessage (worker t) (PostedMessage parsed) []]\<rparr>)
           | None \<Rightarrow>
               (None, t\<lparr>ww_trace := ww_trace t @ [PostMessage (worker t) (PostedText msgText) []]\<rparr>))"

definition ww_subscribe :: "nat \<Rightarrow> WebWorkerTransport \<Rightarrow> WebWorkerTransport" where
  "ww_subscribe handler t =
     (if handler \<in> set (ww_handlers t) then t else t\<lparr>ww_handlers := ww_handlers t @ [handler]\<rparr>)"

definition ww_unsubscribe :: "nat \<Rightarrow> WebWorkerTransport \<Rightarrow> WebWorkerTransport" where
  "ww_unsubscribe handler t = t\<lparr>ww_handlers := removeAll handler (ww_handlers t)\<rparr>"

definition ww_close :: "WebWorkerTransport \<Rightarrow> WebWorkerTransport" where
  "ww_close t =
     (if ww_closed t then t
      else (let t1 = handleClose t in t1\<lparr>ww_trace := ww_trace t1 @ [Terminate (worker t1)]\<rparr>))"

definition ww_isClosed :: "WebWorkerTransport \<Rightarrow> bool" where
  "ww_isClosed t = ww_closed t"

text \<open>
  The calls and events of its life. The \<open>message\<close> and \<open>error\<close> events reach their
  listeners while these are attached; a terminated worker raises no \<open>messageerror\<close>.
\<close>

datatype WwOp =
    WwSend string
  | WwSubscribe nat
  | WwUnsubscribe nat
  | WwClose
  | WwMessage jsval
  | WwError
  | WwMessageError

definition wwStep :: "Env \<Rightarrow> WebWorkerTransport \<Rightarrow> WwOp \<Rightarrow> WebWorkerTransport" where
  "wwStep env t op =
     (case op of
        WwSend m \<Rightarrow> snd (ww_send env m t)
      | WwSubscribe handler \<Rightarrow> ww_subscribe handler t
      | WwUnsubscribe handler \<Rightarrow> ww_unsubscribe handler t
      | WwClose \<Rightarrow> ww_close t
      | WwMessage data \<Rightarrow> (if listening t then messageListener env data t else t)
      | WwError \<Rightarrow> (if listening t then errorListener t else t)
      | WwMessageError \<Rightarrow>
          (if Terminate (worker t) \<in> set (ww_trace t) then t else snd (messageErrorListener t)))"

definition wwRun :: "Env \<Rightarrow> WebWorkerTransport \<Rightarrow> WwOp list \<Rightarrow> WebWorkerTransport" where
  "wwRun env t ops = foldl (wwStep env) t ops"

section \<open>Sample data and proof apparatus for the adapter\<close>

text \<open>
  \<open>prepend pre st\<close> is \<open>st\<close> with \<open>pre\<close> in front of what it has posted; no handler reads
  what was posted, so handling commutes with it.
\<close>

definition prepend :: "jsval list \<Rightarrow> ('w, 'h) WorkerState \<Rightarrow> ('w, 'h) WorkerState" where
  "prepend pre st = st\<lparr>posted := pre @ posted st\<rparr>"

definition lift ::
  "jsval list \<Rightarrow> ('w, 'h) WorkerState \<times> exn option \<Rightarrow> ('w, 'h) WorkerState \<times> exn option" where
  "lift pre r = (prepend pre (fst r), snd r)"

text \<open>
  An engine, a worker state with one open document and a request on that document, for
  the concrete instances below. The engine's \<open>hover\<close> raises.
\<close>

definition sampleEngine :: "(nat, nat) Engine" where
  "sampleEngine =
     \<lparr>init = Inr (),
      newWorkspace = (\<lambda>pv. Inr 0),
      openFile = (\<lambda>w u t. Inr (w, Suc w)),
      updateFile = (\<lambda>w h t. Inr w),
      closeFile = (\<lambda>w h. Inr w),
      checkFile = (\<lambda>w h. Inr [\<lparr>toRange = Inr None, severity = Inr 2, message = Inr ''invalid-assignment''\<rparr>,
                                 \<lparr>toRange = Inr (Some \<lparr>ty_start = \<lparr>ty_line = 5, ty_column = 1\<rparr>,
                                                       ty_end = \<lparr>ty_line = 5, ty_column = 7\<rparr>\<rparr>),
                                  severity = Inr 1, message = Inr ''unused''\<rparr>]),
      hover = (\<lambda>w h p. Inl (Thrown ''RuntimeError: unreachable'')),
      completions = (\<lambda>w h p. Inr []),
      gotoDefinition = (\<lambda>w h p. Inr []),
      gotoReferences = (\<lambda>w h p. Inr []),
      gotoTypeDefinition = (\<lambda>w h p. Inr []),
      gotoDeclaration = (\<lambda>w h p. Inr []),
      documentHighlights = (\<lambda>w h p. Inr []),
      signatureHelp = (\<lambda>w h p. Inr None),
      format = (\<lambda>w h. Inr None),
      sourceText = (\<lambda>w h. Inr '''')\<rparr>"

definition openState :: "(nat, nat) WorkerState" where
  "openState =
     \<lparr>workspace = Some 1, fileHandles = [''file:///main.py'' \<mapsto> 0], pythonVersion = ''3.12'',
      posted = [], selfClosed = False\<rparr>"

definition documentRequest :: "string \<Rightarrow> LSPRequest" where
  "documentRequest m =
     \<lparr>req_id = JNum 1, req_method = m,
      req_params = Some \<lparr>initializationOptions = None,
                         textDocument = Some \<lparr>uri = ''file:///main.py'', doc_text = None\<rparr>,
                         contentChanges = None,
                         position = Some \<lparr>line = 4, character = 0\<rparr>\<rparr>\<rparr>"

section \<open>Observations on traces; sample data for the transports\<close>

text \<open>What was posted to a worker, and which workers a port was transferred to.\<close>

fun postedTo :: "nat \<Rightarrow> Effect list \<Rightarrow> (Posted \<times> nat list) list" where
  "postedTo w [] = []"
| "postedTo w (PostMessage w' m ps # es) = (if w' = w then [(m, ps)] else []) @ postedTo w es"
| "postedTo w (e # es) = postedTo w es"

fun receivers :: "nat \<Rightarrow> Effect list \<Rightarrow> nat list" where
  "receivers p [] = []"
| "receivers p (PostMessage w m ps # es) = (if p \<in> set ps then [w] else []) @ receivers p es"
| "receivers p (e # es) = receivers p es"

text \<open>
  The effects of a sequence of spawn requests when nothing fails: for each request a new
  worker, numbered from \<open>w\<close> and named from \<open>b + 1\<close>, and one boot message to it.
\<close>

fun spawnEffects :: "nat \<Rightarrow> nat \<Rightarrow> (jsval \<times> nat) list \<Rightarrow> Effect list" where
  "spawnEffects w b [] = []"
| "spawnEffects w b (r # rs) =
     [NewWorker w (''BasedPyright-background-'' @ showNat (b + 1)),
      PostMessage w (bootMessage r) [snd r]] @ spawnEffects (Suc w) (Suc b) rs"

text \<open>Invariants of the two transports, for the proofs.\<close>

definition bpInv :: "BasedPyrightTransport \<Rightarrow> bool" where
  "bpInv t \<longleftrightarrow>
     (closed t \<longrightarrow> foregroundWorker t = None \<and> backgroundWorkers t = [])
   \<and> (\<not> closed t \<longrightarrow> OnClose \<notin> set (trace t) \<and> (\<forall>w. Terminate w \<notin> set (trace t)))
   \<and> count_list (trace t) OnClose \<le> 1
   \<and> (\<forall>w. count_list (trace t) (Terminate w) \<le> 1)
   \<and> distinct (workers t)
   \<and> (\<forall>w \<in> set (workers t). w < nextWorker t)
   \<and> (\<forall>w. nextWorker t \<le> w \<longrightarrow> postedTo w (trace t) = [])"


text \<open>A host where nothing fails, and options with both callbacks given.\<close>

definition sampleEnv :: Env where
  "sampleEnv = \<lparr>jsonParse = (\<lambda>s. None), jsonStringify = (\<lambda>v. ''{}''),
                 workerCtor = (\<lambda>k. None), typeshedFiles = []\<rparr>"

definition sampleOptions :: BasedPyrightTransportOptions where
  "sampleOptions = \<lparr>bp_pythonVersion = Some ''3.13'', bp_onError = True, bp_onClose = Some None\<rparr>"


section \<open>Theorems\<close>

subsection \<open>Supporting lemmas\<close>

lemma attempt_simps [simp]:
  "attempt (Inl e) st k = (st, Some e)"
  "attempt (Inr v) st k = k v"
  by (simp_all add: attempt_def)

lemma prepend_fields [simp]:
  "workspace (prepend pre st) = workspace st"
  "fileHandles (prepend pre st) = fileHandles st"
  "pythonVersion (prepend pre st) = pythonVersion st"
  "selfClosed (prepend pre st) = selfClosed st"
  "posted (prepend pre st) = pre @ posted st"
  by (simp_all add: prepend_def)

lemma prepend_send [simp]:
  "sendResponse rid r (prepend pre st) = prepend pre (sendResponse rid r st)"
  "sendError rid c m (prepend pre st) = prepend pre (sendError rid c m st)"
  "sendNotification me ps (prepend pre st) = prepend pre (sendNotification me ps st)"
  by (simp_all add: prepend_def sendResponse_def sendError_def sendNotification_def)

lemma prepend_upd [simp]:
  "(prepend pre st)\<lparr>workspace := w\<rparr> = prepend pre (st\<lparr>workspace := w\<rparr>)"
  "(prepend pre st)\<lparr>fileHandles := f\<rparr> = prepend pre (st\<lparr>fileHandles := f\<rparr>)"
  "(prepend pre st)\<lparr>pythonVersion := v\<rparr> = prepend pre (st\<lparr>pythonVersion := v\<rparr>)"
  "(prepend pre st)\<lparr>selfClosed := b\<rparr> = prepend pre (st\<lparr>selfClosed := b\<rparr>)"
  by (simp_all add: prepend_def)

lemma lift_pair [simp]: "lift pre (s, e) = (prepend pre s, e)" by (simp add: lift_def)

lemma attempt_lift:
  "(\<And>v. k' v = lift pre (k v)) \<Longrightarrow> attempt m (prepend pre st) k' = lift pre (attempt m st k)"
  by (cases m) (simp_all)





















lemmas adapter_defs =
  handleRequest_def handleBody_def withDocument_def withPosition_def paramsUri_def
  paramsPosition_def paramsTextDocument_def paramsContentChanges_def lspToTyPositionOf_def Let_def

lemma missing_document:
  assumes "req_params request = Some p" and "textDocument p = Some d"
    and "workspace st = None \<or> fileHandles st (uri d) = None"
  shows "withDocument (req_params request) st missing k = missing"
  using assms by (auto simp: withDocument_def paramsUri_def split: option.splits)

lemma mapE_Inr:
  "mapE f xs = Inr ys \<Longrightarrow> length ys = length xs \<and> (\<forall>i < length xs. f (xs ! i) = Inr (ys ! i))"
proof (induction xs arbitrary: ys)
  case Nil
  then show ?case by simp
next
  case (Cons x xs)
  from Cons.prems obtain y ys' where y: "f x = Inr y" and ys': "mapE f xs = Inr ys'" and eq: "ys = y # ys'"
    by (auto split: sum.splits)
  from Cons.IH [OF ys'] have len: "length ys' = length xs"
    and nth: "\<forall>i < length xs. f (xs ! i) = Inr (ys' ! i)" by simp_all
  show ?case
  proof (intro conjI allI impI)
    show "length ys = length (x # xs)" using len eq by simp
  next
    fix i assume "i < length (x # xs)"
    then show "f ((x # xs) ! i) = Inr (ys ! i)"
      using y nth eq by (cases i) simp_all
  qed
qed

lemma toLSPDiagnostic_range:
  assumes "toLSPDiagnostic diag = Inr item"
  shows "getProp item ''range'' =
          (case toRange diag of
             Inr (Some r) \<Rightarrow> rangeJson (tyToLSPRange r)
           | _ \<Rightarrow> rangeJson \<lparr>range_start = \<lparr>line = 0, character = 0\<rparr>,
                             range_end = \<lparr>line = 0, character = 0\<rparr>\<rparr>)"
  using assms
  by (auto simp: toLSPDiagnostic_def rangeJson_def positionJson_def split: sum.splits option.splits)


subsection \<open>Supporting lemmas for the transports\<close>

lemma close_closed: "closed t \<Longrightarrow> close t = (None, t)"
  by (simp add: close_def)

lemma close_result:
  "closed (snd (close t)) \<and> (\<not> closed t \<longrightarrow> handlers (snd (close t)) = []
     \<and> foregroundWorker (snd (close t)) = None \<and> backgroundWorkers (snd (close t)) = [])"
  by (simp add: close_def Let_def split: option.splits)

lemma close_trace:
  "\<not> closed t \<Longrightarrow> trace (snd (close t)) =
     trace t @ map Terminate (workers t) @ (case bp_onClose (options t) of None \<Rightarrow> [] | Some _ \<Rightarrow> [OnClose])"
  by (simp add: close_def workers_def Let_def split: option.splits)


lemma postedTo_append [simp]: "postedTo w (xs @ ys) = postedTo w xs @ postedTo w ys"
  by (induction w xs rule: postedTo.induct) simp_all

lemma postedTo_map_Terminate [simp]: "postedTo w (map Terminate ws) = []"
  by (induction ws) simp_all

lemma postedTo_map_Deliver [simp]: "postedTo w (map (\<lambda>h. Deliver h m) hs) = []"
  by (induction hs) simp_all

lemma count_list_0: "x \<notin> set xs \<Longrightarrow> count_list xs x = 0"
  by (induction xs) auto

lemma count_list_distinct: "distinct ws \<Longrightarrow> count_list ws w \<le> 1"
  by (induction ws) (auto simp: count_list_0)

lemma count_list_Terminate: "count_list (map Terminate ws) (Terminate w) = count_list ws w"
  by (induction ws) auto

lemma count_list_map_Terminate:
  "distinct ws \<Longrightarrow> count_list (map Terminate ws) (Terminate w) \<le> 1"
  using count_list_distinct [of ws w] by (simp add: count_list_Terminate)

lemma count_list_map_Terminate_OnClose [simp]: "count_list (map Terminate ws) OnClose = 0"
  by (induction ws) auto

lemma bpInv_new: "bpInv (newBasedPyrightTransport env n opts)"
  by (auto simp: bpInv_def newBasedPyrightTransport_def workers_def Let_def split: option.splits)

lemma bpInv_send: "bpInv t \<Longrightarrow> bpInv (snd (send env m t))"
  by (auto simp: bpInv_def send_def workers_def split: option.splits)

lemma bpInv_subscribe: "bpInv t \<Longrightarrow> bpInv (subscribe h t)"
  by (auto simp: bpInv_def subscribe_def workers_def split: option.splits)

lemma bpInv_unsubscribe: "bpInv t \<Longrightarrow> bpInv (unsubscribe h t)"
  by (auto simp: bpInv_def unsubscribe_def workers_def split: option.splits)

lemma bpInv_timer: "bpInv t \<Longrightarrow> bpInv (readyTimer t)"
  by (auto simp: bpInv_def readyTimer_def workers_def split: option.splits)

lemma bpInv_error: "bpInv t \<Longrightarrow> bpInv (workerError m t)"
  by (auto simp: bpInv_def workerError_def workers_def Let_def split: option.splits)

lemma createBackgroundWorker_fields:
  "closed (createBackgroundWorker env data t) = closed t"
  "foregroundWorker (createBackgroundWorker env data t) = foregroundWorker t"
  "nextWorker (createBackgroundWorker env data t) = Suc (nextWorker t)"
  "handlers (createBackgroundWorker env data t) = handlers t"
  by (simp_all add: createBackgroundWorker_def Let_def split: option.splits jsval.splits)

lemma createBackgroundWorker_workers:
  "backgroundWorkers (createBackgroundWorker env data t) =
     backgroundWorkers t @ (case workerCtor env (nextWorker t) of None \<Rightarrow> [nextWorker t] | Some _ \<Rightarrow> [])"
  by (simp add: createBackgroundWorker_def Let_def split: option.splits jsval.splits)

lemma createBackgroundWorker_trace:
  "\<exists>new. trace (createBackgroundWorker env data t) = trace t @ new
     \<and> OnClose \<notin> set new \<and> (\<forall>w. Terminate w \<notin> set new)
     \<and> (\<forall>w. Suc (nextWorker t) \<le> w \<longrightarrow> postedTo w new = [])"
  by (simp add: createBackgroundWorker_def Let_def split: option.splits jsval.splits)

lemma bpInv_create:
  assumes "bpInv t" and "\<not> closed t"
  shows "bpInv (createBackgroundWorker env data t)"
proof -
  obtain new where tr: "trace (createBackgroundWorker env data t) = trace t @ new"
    and n1: "OnClose \<notin> set new" and n2: "\<And>w. Terminate w \<notin> set new"
    and n3: "\<And>w. Suc (nextWorker t) \<le> w \<Longrightarrow> postedTo w new = []"
    using createBackgroundWorker_trace [of env data t] by blast
  have old: "OnClose \<notin> set (trace t)" "\<And>w. Terminate w \<notin> set (trace t)"
    "distinct (workers t)" "\<And>w. w \<in> set (workers t) \<Longrightarrow> w < nextWorker t"
    "\<And>w. nextWorker t \<le> w \<Longrightarrow> postedTo w (trace t) = []"
    using assms by (auto simp: bpInv_def)
  have ws: "workers (createBackgroundWorker env data t) =
      workers t @ (case workerCtor env (nextWorker t) of None \<Rightarrow> [nextWorker t] | Some _ \<Rightarrow> [])"
    by (simp add: workers_def createBackgroundWorker_fields createBackgroundWorker_workers)
  have d: "distinct (workers (createBackgroundWorker env data t))"
    unfolding ws using old(3,4) by (auto split: option.splits)
  have b: "\<forall>w \<in> set (workers (createBackgroundWorker env data t)).
             w < nextWorker (createBackgroundWorker env data t)"
    unfolding ws createBackgroundWorker_fields using old(4) by (auto simp: less_Suc_eq split: option.splits)
  have c1: "count_list (trace (createBackgroundWorker env data t)) OnClose \<le> 1"
    unfolding tr using old(1) n1 by (simp add: count_list_0)
  have c2: "\<forall>w. count_list (trace (createBackgroundWorker env data t)) (Terminate w) \<le> 1"
    unfolding tr using old(2) n2 by (simp add: count_list_0)
  have p: "\<forall>w. nextWorker (createBackgroundWorker env data t) \<le> w
             \<longrightarrow> postedTo w (trace (createBackgroundWorker env data t)) = []"
    unfolding tr createBackgroundWorker_fields using old(5) n3 by simp
  have e: "OnClose \<notin> set (trace (createBackgroundWorker env data t))"
    "\<forall>w. Terminate w \<notin> set (trace (createBackgroundWorker env data t))"
    unfolding tr using old(1,2) n1 n2 by simp_all
  show ?thesis
    unfolding bpInv_def using assms(2) d b c1 c2 p e
    by (simp add: createBackgroundWorker_fields)
qed

lemma bpInv_deliver:
  assumes "bpInv t"
  shows "bpInv (t\<lparr>trace := trace t @ map (\<lambda>h. Deliver h m) hs\<rparr>)"
proof -
  have a: "OnClose \<notin> set (map (\<lambda>h. Deliver h m) hs)" "\<And>w. Terminate w \<notin> set (map (\<lambda>h. Deliver h m) hs)"
    by auto
  have c: "count_list (map (\<lambda>h. Deliver h m) hs) OnClose = 0"
    "\<And>w. count_list (map (\<lambda>h. Deliver h m) hs) (Terminate w) = 0"
    using a by (simp_all add: count_list_0)
  show ?thesis
    using assms a c unfolding bpInv_def by (simp add: workers_def)
qed

lemma bpInv_message:
  assumes "bpInv t" and "foregroundWorker t \<noteq> None"
  shows "bpInv (handleMessage env data t)"
proof -
  have nc: "\<not> closed t" using assms by (auto simp: bpInv_def)
  show ?thesis
    unfolding handleMessage_def
    using assms(1) bpInv_create [OF assms(1) nc] bpInv_deliver [OF assms(1)]
    by simp
qed

lemma bpInv_close:
  assumes "bpInv t"
  shows "bpInv (snd (close t))"
proof (cases "closed t")
  case True
  then show ?thesis using assms by (simp add: close_closed)
next
  case False
  have tr: "trace (snd (close t)) =
     trace t @ map Terminate (workers t) @ (case bp_onClose (options t) of None \<Rightarrow> [] | Some _ \<Rightarrow> [OnClose])"
    by (rule close_trace [OF False])
  have d: "distinct (workers t)" using assms by (simp add: bpInv_def)
  have none: "OnClose \<notin> set (trace t)" "\<And>w. Terminate w \<notin> set (trace t)"
    using assms False by (auto simp: bpInv_def)
  have c1: "count_list (trace (snd (close t))) OnClose \<le> 1"
    unfolding tr using none by (simp add: count_list_0 split: option.splits)
  have c2: "count_list (trace (snd (close t))) (Terminate w) \<le> 1" for w
    unfolding tr using none count_list_map_Terminate [OF d, of w]
    by (simp add: count_list_0 split: option.splits)
  have nw: "nextWorker (snd (close t)) = nextWorker t"
    by (simp add: close_def Let_def split: option.splits)
  have pm: "\<forall>w. nextWorker (snd (close t)) \<le> w \<longrightarrow> postedTo w (trace (snd (close t))) = []"
    unfolding tr nw using assms by (auto simp: bpInv_def split: option.splits)
  have r: "closed (snd (close t))" "foregroundWorker (snd (close t)) = None"
    "backgroundWorkers (snd (close t)) = []"
    using close_result [of t] False by simp_all
  show ?thesis
    unfolding bpInv_def using r c1 c2 pm by (simp add: workers_def)
qed

lemma bpInv_step: "bpInv t \<Longrightarrow> bpInv (bpStep env t op)"
  by (cases op)
     (simp_all add: bpStep_def bpInv_send bpInv_subscribe bpInv_unsubscribe bpInv_close
        bpInv_message bpInv_error bpInv_timer)

lemma bpInv_run: "bpInv t \<Longrightarrow> bpInv (bpRun env t ops)"
  unfolding bpRun_def by (induction ops arbitrary: t) (simp_all add: bpInv_step)




lemma close_foreground: "foregroundWorker (snd (close t)) = None \<or> closed t"
  by (simp add: close_def Let_def split: option.splits)




lemma Deliver_no_Terminate: "Terminate w \<notin> set (map (\<lambda>h. Deliver h m) hs)"
  by auto




lemma count_Deliver_OnClose [simp]: "count_list (map (\<lambda>h. Deliver h m) hs) OnClose = 0"
  by (induction hs) simp_all





lemma receivers_append [simp]: "receivers p (xs @ ys) = receivers p xs @ receivers p ys"
  by (induction p xs rule: receivers.induct) simp_all

lemma transferred_append [simp]: "transferred (xs @ ys) = transferred xs @ transferred ys"
  by (induction xs rule: transferred.induct) simp_all

lemma receivers_not_transferred: "p \<notin> set (transferred tr) \<Longrightarrow> receivers p tr = []"
  by (induction tr rule: transferred.induct) simp_all

lemma transferred_spawnEffects [simp]: "transferred (spawnEffects w b reqs) = map snd reqs"
  by (induction reqs arbitrary: w b) simp_all

lemma postedTo_spawnEffects_fresh: "w' < w \<Longrightarrow> postedTo w' (spawnEffects w b reqs) = []"
  by (induction reqs arbitrary: w b) simp_all

lemma postedTo_spawnEffects:
  "k < length reqs \<Longrightarrow>
     postedTo (w + k) (spawnEffects w b reqs) = [(bootMessage (reqs ! k), [snd (reqs ! k)])]"
proof (induction reqs arbitrary: w b k)
  case Nil
  then show ?case by simp
next
  case (Cons r rs)
  show ?case
  proof (cases k)
    case 0
    then show ?thesis by (simp add: postedTo_spawnEffects_fresh)
  next
    case (Suc j)
    then have "j < length rs" using Cons.prems by simp
    from Cons.IH [OF this, of "Suc w" "Suc b"] show ?thesis using Suc by simp
  qed
qed

lemma receivers_spawnEffects:
  "k < length reqs \<Longrightarrow> distinct (map snd reqs) \<Longrightarrow>
     receivers (snd (reqs ! k)) (spawnEffects w b reqs) = [w + k]"
proof (induction reqs arbitrary: w b k)
  case Nil
  then show ?case by simp
next
  case (Cons r rs)
  show ?case
  proof (cases k)
    case 0
    have "snd r \<notin> set (transferred (spawnEffects (Suc w) (Suc b) rs))"
      using Cons.prems(2) by simp
    then show ?thesis using 0 by (simp add: receivers_not_transferred)
  next
    case (Suc j)
    then have j: "j < length rs" using Cons.prems by simp
    have d: "distinct (map snd rs)" using Cons.prems(2) by simp
    have mem: "snd (rs ! j) \<in> snd ` set rs" using j by simp
    have "snd r \<notin> snd ` set rs" using Cons.prems(2) by simp
    with mem have ne: "snd (rs ! j) \<noteq> snd r" by metis
    from Cons.IH [OF j d, of "Suc w" "Suc b"] show ?thesis using Suc ne by simp
  qed
qed

lemma spawn_step:
  assumes "foregroundWorker t \<noteq> None" and "workerCtor env (nextWorker t) = None"
    and "snd r \<notin> set (transferred (trace t))" and "set (portsOf (fst r)) \<subseteq> {snd r}"
  shows "bpStep env t (BpMessage (spawnRequest r)) =
     t\<lparr>nextWorker := Suc (nextWorker t),
       backgroundWorkers := backgroundWorkers t @ [nextWorker t],
       trace := trace t @
         [NewWorker (nextWorker t)
            (''BasedPyright-background-'' @ showNat (length (backgroundWorkers t) + 1)),
          PostMessage (nextWorker t) (bootMessage r) [snd r]]\<rparr>"
  using assms
  by (simp add: bpStep_def handleMessage_def spawnRequest_def createBackgroundWorker_def
      bootMessage_def Let_def del: showNat.simps)

lemma spawn_run:
  assumes "foregroundWorker t \<noteq> None"
    and "\<forall>k < length reqs. workerCtor env (nextWorker t + k) = None"
    and "distinct (map snd reqs)"
    and "set (map snd reqs) \<inter> set (transferred (trace t)) = {}"
    and "\<forall>r \<in> set reqs. set (portsOf (fst r)) \<subseteq> {snd r}"
  shows "bpRun env t (map (\<lambda>r. BpMessage (spawnRequest r)) reqs) =
     t\<lparr>nextWorker := nextWorker t + length reqs,
       backgroundWorkers := backgroundWorkers t @ [nextWorker t ..< nextWorker t + length reqs],
       trace := trace t @ spawnEffects (nextWorker t) (length (backgroundWorkers t)) reqs\<rparr>"
  using assms unfolding bpRun_def
proof (induction reqs arbitrary: t)
  case Nil
  then show ?case by simp
next
  case (Cons r rs)
  let ?t1 = "t\<lparr>nextWorker := Suc (nextWorker t),
       backgroundWorkers := backgroundWorkers t @ [nextWorker t],
       trace := trace t @
         [NewWorker (nextWorker t)
            (''BasedPyright-background-'' @ showNat (length (backgroundWorkers t) + 1)),
          PostMessage (nextWorker t) (bootMessage r) [snd r]]\<rparr>"
  have c0: "workerCtor env (nextWorker t) = None" using Cons.prems(2) by auto
  have p0: "snd r \<notin> set (transferred (trace t))" using Cons.prems(4) by auto
  have d0: "set (portsOf (fst r)) \<subseteq> {snd r}" using Cons.prems(5) by simp
  have step: "bpStep env t (BpMessage (spawnRequest r)) = ?t1"
    by (rule spawn_step [OF Cons.prems(1) c0 p0 d0])
  have a1: "foregroundWorker ?t1 \<noteq> None" using Cons.prems(1) by simp
  have a2: "\<forall>k < length rs. workerCtor env (nextWorker ?t1 + k) = None"
  proof (intro allI impI)
    fix k assume "k < length rs"
    then have "Suc k < length (r # rs)" by simp
    then have "workerCtor env (nextWorker t + Suc k) = None" using Cons.prems(2) by blast
    then show "workerCtor env (nextWorker ?t1 + k) = None" by simp
  qed
  have a3: "distinct (map snd rs)" using Cons.prems(3) by simp
  have a4: "set (map snd rs) \<inter> set (transferred (trace ?t1)) = {}"
    using Cons.prems(3,4) by auto
  have a5: "\<forall>r \<in> set rs. set (portsOf (fst r)) \<subseteq> {snd r}" using Cons.prems(5) by simp
  have upt: "[nextWorker t ..< nextWorker t + Suc (length rs)]
      = nextWorker t # [Suc (nextWorker t) ..< Suc (nextWorker t) + length rs]"
    by (simp add: upt_rec)
  show ?case
    using Cons.IH [OF a1 a2 a3 a4 a5] upt
    by (simp add: step del: showNat.simps)
qed

lemma wwRun_append: "wwRun env u (xs @ ys) = wwRun env (wwRun env u xs) ys"
  by (simp add: wwRun_def)

lemma wwRun_close: "ww_close (wwRun env u xs) = wwRun env u (xs @ [WwClose])"
  by (simp add: wwRun_def wwStep_def)


lemmas bp_defs =
  bpRun_def bpStep_def newBasedPyrightTransport_def send_def close_def subscribe_def
  unsubscribe_def handleMessage_def createBackgroundWorker_def spawnRequest_def bootMessage_def
  sampleEnv_def sampleOptions_def Let_def


subsection \<open>The claims\<close>




text \<open>
  C2. The engine-path-to-URI normalisation of \<open>tyLocationLinkToLSPLocation\<close>, read as the
  case analysis it is (the first matching case applies): a path that starts with the
  marker \<open>/file:/\<close> loses \<open>/file:\<close> and gets \<open>file://\<close> in front of the remaining path,
  which keeps its leading slash; a path that starts with neither the marker nor
  \<open>file://\<close> gets \<open>file://\<close> prepended; a path that already starts with \<open>file://\<close> is
  returned unchanged. The three examples of the specification are instances. The range
  of the link is converted by \<open>tyToLSPRange\<close> in every case.
\<close>

theorem uri_rewrite:
  "loc_uri (tyLocationLinkToLSPLocation \<lparr>path = ''/file:/'' @ rest, full_range = r\<rparr>)
     = ''file:///'' @ rest
   \<and> (\<not> startsWith p ''/file:/'' \<and> \<not> startsWith p ''file://''
        \<longrightarrow> loc_uri (tyLocationLinkToLSPLocation \<lparr>path = p, full_range = r\<rparr>) = ''file://'' @ p)
   \<and> loc_uri (tyLocationLinkToLSPLocation \<lparr>path = ''file://'' @ rest, full_range = r\<rparr>)
     = ''file://'' @ rest
   \<and> loc_uri (tyLocationLinkToLSPLocation \<lparr>path = ''/file:/workspace/main.py'', full_range = r\<rparr>)
     = ''file:///workspace/main.py''
   \<and> loc_uri (tyLocationLinkToLSPLocation \<lparr>path = ''/workspace/main.py'', full_range = r\<rparr>)
     = ''file:///workspace/main.py''
   \<and> loc_uri (tyLocationLinkToLSPLocation \<lparr>path = ''file:///x'', full_range = r\<rparr>)
     = ''file:///x''
   \<and> loc_range (tyLocationLinkToLSPLocation \<lparr>path = p, full_range = r\<rparr>) = tyToLSPRange r"
  by (simp add: tyLocationLinkToLSPLocation_def startsWith_def substring_def Let_def)

theorem uri_rewrite_witness:
  "\<not> startsWith ''/tmp/a.py'' ''/file:/'' \<and> \<not> startsWith ''/tmp/a.py'' ''file://''
   \<and> loc_uri (tyLocationLinkToLSPLocation
        \<lparr>path = ''/tmp/a.py'',
         full_range = \<lparr>ty_start = \<lparr>ty_line = 1, ty_column = 1\<rparr>,
                       ty_end = \<lparr>ty_line = 1, ty_column = 5\<rparr>\<rparr>\<rparr>) = ''file:///tmp/a.py''
   \<and> loc_uri (tyLocationLinkToLSPLocation
        \<lparr>path = ''/file:/main.py'',
         full_range = \<lparr>ty_start = \<lparr>ty_line = 1, ty_column = 1\<rparr>,
                       ty_end = \<lparr>ty_line = 1, ty_column = 5\<rparr>\<rparr>\<rparr>) = ''file:///main.py''"
  using uri_rewrite [of "''main.py''"
      "\<lparr>ty_start = \<lparr>ty_line = 1, ty_column = 1\<rparr>, ty_end = \<lparr>ty_line = 1, ty_column = 5\<rparr>\<rparr>"
      "''/tmp/a.py''"]
  by (simp add: startsWith_def)

text \<open>
  C3. The severity mapping is a total bijection over the three defined levels in both
  directions: the pulled-diagnostics mapping sends the engine levels Error = 2,
  Warning = 1, Info = 0 to the protocol severities 1, 2, 3, the push-notification intake
  sends 1, 2, 3 to error, warning, info, and the two are mutually inverse on those
  levels.
\<close>

theorem severity_bijection:
  "tySeverityToLSP (tySeverity SevError) = 1
   \<and> tySeverityToLSP (tySeverity SevWarning) = 2
   \<and> tySeverityToLSP (tySeverity SevInfo) = 3
   \<and> lspSeverityToApp 1 = SevError
   \<and> lspSeverityToApp 2 = SevWarning
   \<and> lspSeverityToApp 3 = SevInfo
   \<and> bij_betw tySeverityToLSP {0, 1, 2} {1, 2, 3}
   \<and> bij_betw lspSeverityToApp {1, 2, 3} UNIV
   \<and> bij_betw tySeverity UNIV {0, 1, 2}
   \<and> (\<forall>s. lspSeverityToApp (tySeverityToLSP (tySeverity s)) = s)
   \<and> (\<forall>l \<in> {1, 2, 3}. tySeverityToLSP (tySeverity (lspSeverityToApp l)) = l)"
proof -
  have univ: "(UNIV :: Severity set) = {SevError, SevWarning, SevInfo}"
    using Severity.exhaust by auto
  have a: "bij_betw tySeverityToLSP {0, 1, 2} {1, 2, 3}"
    by (auto simp: bij_betw_def inj_on_def tySeverityToLSP_def)
  have b: "bij_betw lspSeverityToApp {1, 2, 3} UNIV"
    unfolding univ by (auto simp: bij_betw_def inj_on_def lspSeverityToApp_def)
  have c: "bij_betw tySeverity UNIV {0, 1, 2}"
    unfolding univ by (auto simp: bij_betw_def inj_on_def)
  have d: "lspSeverityToApp (tySeverityToLSP (tySeverity s)) = s" for s
    by (cases s) (simp_all add: tySeverityToLSP_def lspSeverityToApp_def)
  have e: "\<forall>l \<in> {1, 2, 3}. tySeverityToLSP (tySeverity (lspSeverityToApp l)) = l"
    by (simp add: tySeverityToLSP_def lspSeverityToApp_def)
  show ?thesis
    using a b c d e by (simp add: tySeverityToLSP_def lspSeverityToApp_def)
qed

theorem severity_bijection_witness:
  "tySeverityToLSP (tySeverity (lspSeverityToApp 2)) = 2
   \<and> lspSeverityToApp (tySeverityToLSP (tySeverity SevWarning)) = SevWarning
   \<and> (2::int) \<in> {1, 2, 3}"
  using severity_bijection by simp



text \<open>
  C6. For each of the ten requests on a document (diagnostics-pull, hover, completion,
  definition, references, type-definition, declaration, document-highlight,
  signature-help, formatting), when the workspace is not initialised or the request's
  document URI has no file handle, the handler answers with the empty or null result and
  raises nothing.
\<close>

theorem missing_state_empty_result:
  assumes "req_params request = Some p" and "textDocument p = Some d"
    and "workspace st = None \<or> fileHandles st (uri d) = None"
  shows "(req_method request = ''textDocument/diagnostic'' \<longrightarrow>
            handleRequest eng request st =
              sendResponse (req_id request) (JObj [(''kind'', JStr ''full''), (''items'', JArr [])]) st)
       \<and> (req_method request = ''textDocument/hover'' \<longrightarrow>
            handleRequest eng request st = sendResponse (req_id request) JNull st)
       \<and> (req_method request = ''textDocument/completion'' \<longrightarrow>
            handleRequest eng request st = sendResponse (req_id request) (JObj [(''items'', JArr [])]) st)
       \<and> (req_method request = ''textDocument/definition'' \<longrightarrow>
            handleRequest eng request st = sendResponse (req_id request) (JArr []) st)
       \<and> (req_method request = ''textDocument/references'' \<longrightarrow>
            handleRequest eng request st = sendResponse (req_id request) (JArr []) st)
       \<and> (req_method request = ''textDocument/typeDefinition'' \<longrightarrow>
            handleRequest eng request st = sendResponse (req_id request) (JArr []) st)
       \<and> (req_method request = ''textDocument/declaration'' \<longrightarrow>
            handleRequest eng request st = sendResponse (req_id request) (JArr []) st)
       \<and> (req_method request = ''textDocument/documentHighlight'' \<longrightarrow>
            handleRequest eng request st = sendResponse (req_id request) (JArr []) st)
       \<and> (req_method request = ''textDocument/signatureHelp'' \<longrightarrow>
            handleRequest eng request st = sendResponse (req_id request) JNull st)
       \<and> (req_method request = ''textDocument/formatting'' \<longrightarrow>
            handleRequest eng request st = sendResponse (req_id request) (JArr []) st)"
  by (simp add: handleRequest_def handleBody_def Let_def handleDiagnostic_def handleHover_def
      handleCompletion_def handleLocations_def handleDocumentHighlight_def
      handleSignatureHelp_def handleFormatting_def missing_document [OF assms])


theorem missing_state_empty_result_witness:
  "workspace (initialState :: (nat, nat) WorkerState) = None
   \<and> posted (handleRequest sampleEngine (documentRequest ''textDocument/hover'') initialState)
       = [JObj [(''type'', JStr ''worker-ready'')], response (JNum 1) JNull]
   \<and> posted (handleRequest sampleEngine (documentRequest ''textDocument/diagnostic'') initialState)
       = [JObj [(''type'', JStr ''worker-ready'')],
          response (JNum 1) (JObj [(''kind'', JStr ''full''), (''items'', JArr [])])]"
  using missing_state_empty_result
    [of "documentRequest ''textDocument/hover''" _ _ "initialState :: (nat, nat) WorkerState" sampleEngine]
    missing_state_empty_result
    [of "documentRequest ''textDocument/diagnostic''" _ _ "initialState :: (nat, nat) WorkerState" sampleEngine]
  by (simp add: documentRequest_def initialState_def sendResponse_def)

text \<open>
  C10. In the answer to \<open>textDocument/diagnostic\<close> there is one item per engine diagnostic,
  every item carries a range, and an item whose engine range is absent carries the zero
  range from (line 0, character 0) to (line 0, character 0).
\<close>

theorem absent_range_zero_range:
  assumes "req_method request = ''textDocument/diagnostic''"
    and "req_params request = Some p" and "textDocument p = Some d"
    and "workspace st = Some w" and "fileHandles st (uri d) = Some h"
    and "checkFile eng w h = Inr diagnostics"
    and "mapE toLSPDiagnostic diagnostics = Inr items"
  shows "handleRequest eng request st =
           sendResponse (req_id request) (JObj [(''kind'', JStr ''full''), (''items'', JArr items)]) st
       \<and> length items = length diagnostics
       \<and> (\<forall>i < length diagnostics.
            (\<exists>r. getProp (items ! i) ''range'' = rangeJson r)
            \<and> (toRange (diagnostics ! i) = Inr None \<longrightarrow>
                 getProp (items ! i) ''range'' =
                   JObj [(''start'', JObj [(''line'', JNum 0), (''character'', JNum 0)]),
                         (''end'', JObj [(''line'', JNum 0), (''character'', JNum 0)])]))"
proof -
  have resp: "handleRequest eng request st =
      sendResponse (req_id request) (JObj [(''kind'', JStr ''full''), (''items'', JArr items)]) st"
    using assms by (simp add: adapter_defs handleDiagnostic_def)
  note m = mapE_Inr [OF assms(7)]
  have rng: "(\<exists>r. getProp (items ! i) ''range'' = rangeJson r)
      \<and> (toRange (diagnostics ! i) = Inr None \<longrightarrow>
           getProp (items ! i) ''range'' =
             JObj [(''start'', JObj [(''line'', JNum 0), (''character'', JNum 0)]),
                   (''end'', JObj [(''line'', JNum 0), (''character'', JNum 0)])])"
    if "i < length diagnostics" for i
  proof -
    have "toLSPDiagnostic (diagnostics ! i) = Inr (items ! i)" using m that by simp
    from toLSPDiagnostic_range [OF this]
    have eq: "getProp (items ! i) ''range'' =
          (case toRange (diagnostics ! i) of
             Inr (Some r) \<Rightarrow> rangeJson (tyToLSPRange r)
           | _ \<Rightarrow> rangeJson \<lparr>range_start = \<lparr>line = 0, character = 0\<rparr>,
                             range_end = \<lparr>line = 0, character = 0\<rparr>\<rparr>)" .
    have ex: "\<exists>r. getProp (items ! i) ''range'' = rangeJson r"
      unfolding eq by (cases "toRange (diagnostics ! i)") (auto split: option.splits)
    have z: "toRange (diagnostics ! i) = Inr None \<longrightarrow>
           getProp (items ! i) ''range'' =
             JObj [(''start'', JObj [(''line'', JNum 0), (''character'', JNum 0)]),
                   (''end'', JObj [(''line'', JNum 0), (''character'', JNum 0)])]"
      unfolding eq by (simp add: rangeJson_def positionJson_def)
    show ?thesis using ex z by simp
  qed
  show ?thesis using resp m rng by simp
qed

theorem absent_range_zero_range_witness:
  "posted (handleRequest sampleEngine (documentRequest ''textDocument/diagnostic'') openState) =
     [response (JNum 1)
        (JObj [(''kind'', JStr ''full''),
               (''items'',
                  JArr [JObj [(''range'',
                                 JObj [(''start'', JObj [(''line'', JNum 0), (''character'', JNum 0)]),
                                       (''end'', JObj [(''line'', JNum 0), (''character'', JNum 0)])]),
                              (''severity'', JNum 1),
                              (''message'', JStr ''invalid-assignment''),
                              (''source'', JStr ''ty'')],
                        JObj [(''range'',
                                 JObj [(''start'', JObj [(''line'', JNum 4), (''character'', JNum 0)]),
                                       (''end'', JObj [(''line'', JNum 4), (''character'', JNum 6)])]),
                              (''severity'', JNum 2),
                              (''message'', JStr ''unused''),
                              (''source'', JStr ''ty'')]])])]"
  using absent_range_zero_range
    [of "documentRequest ''textDocument/diagnostic''" _ _ openState 1 0 sampleEngine
        "[\<lparr>toRange = Inr None, severity = Inr 2, message = Inr ''invalid-assignment''\<rparr>,
          \<lparr>toRange = Inr (Some \<lparr>ty_start = \<lparr>ty_line = 5, ty_column = 1\<rparr>,
                                ty_end = \<lparr>ty_line = 5, ty_column = 7\<rparr>\<rparr>),
           severity = Inr 1, message = Inr ''unused''\<rparr>]"]
  by (simp add: documentRequest_def openState_def sampleEngine_def sendResponse_def
      toLSPDiagnostic_def tySeverityToLSP_def rangeJson_def positionJson_def tyToLSPRange_def
      tyToLSPPosition_def)



text \<open>
  C8. What the non-LSP checking path returns for the checkers without an integration:
  the Pyright service returns one informational diagnostic; the BasedPyright and Pyrefly
  services return the empty list.
\<close>

theorem placeholder_checkers_return_nothing:
  "fst (runTypeChecker eng wasmInitialized Pyrefly code pv) = []
   \<and> fst (runTypeChecker eng wasmInitialized BasedPyright code pv) = []
   \<and> map d_severity (fst (runTypeChecker eng wasmInitialized Pyright code pv)) = [SevInfo]"
  by (simp add: runTypeChecker_def checkWithPyrefly_def checkWithBasedPyright_def
      checkWithPyright_def)



text \<open>
  C9. Take the multi-worker transport at any moment of its life with the primary worker
  alive, and \<open>N\<close> spawn requests from it, each with a payload and an endpoint of its own
  not transferred before, on a host where \<open>new Worker\<close> does not fail. Handling them makes
  exactly \<open>N\<close> new workers, kept in \<open>backgroundWorkers\<close>; worker \<open>k\<close> is posted exactly one
  message, the boot message with mode \<open>background\<close>, the payload and the endpoint of
  request \<open>k\<close>, with that endpoint in the transfer list; and each endpoint is transferred
  to that worker only.
\<close>

theorem boot_fan_out:
  assumes "t = bpRun env (newBasedPyrightTransport env n opts) ops"
    and "foregroundWorker t \<noteq> None"
    and "\<forall>k < length reqs. workerCtor env (nextWorker t + k) = None"
    and "distinct (map snd reqs)"
    and "set (map snd reqs) \<inter> set (transferred (trace t)) = {}"
    and "\<forall>r \<in> set reqs. set (portsOf (fst r)) \<subseteq> {snd r}"
  shows "(let t' = bpRun env t (map (\<lambda>r. BpMessage (spawnRequest r)) reqs) in
            backgroundWorkers t' = backgroundWorkers t @ [nextWorker t ..< nextWorker t + length reqs]
          \<and> trace t' = trace t @ spawnEffects (nextWorker t) (length (backgroundWorkers t)) reqs
          \<and> (\<forall>k < length reqs.
                postedTo (nextWorker t + k) (trace t') = [(bootMessage (reqs ! k), [snd (reqs ! k)])]
              \<and> receivers (snd (reqs ! k)) (trace t') = [nextWorker t + k]))"
proof -
  define t' where "t' = bpRun env t (map (\<lambda>r. BpMessage (spawnRequest r)) reqs)"
  have run: "t' = t\<lparr>nextWorker := nextWorker t + length reqs,
       backgroundWorkers := backgroundWorkers t @ [nextWorker t ..< nextWorker t + length reqs],
       trace := trace t @ spawnEffects (nextWorker t) (length (backgroundWorkers t)) reqs\<rparr>"
    unfolding t'_def by (rule spawn_run [OF assms(2-6)])
  have inv: "bpInv t" unfolding assms(1) by (rule bpInv_run [OF bpInv_new])
  have fresh: "postedTo w (trace t) = []" if "nextWorker t \<le> w" for w
    using inv that by (simp add: bpInv_def)
  have each: "postedTo (nextWorker t + k) (trace t') = [(bootMessage (reqs ! k), [snd (reqs ! k)])]
      \<and> receivers (snd (reqs ! k)) (trace t') = [nextWorker t + k]" if k: "k < length reqs" for k
  proof -
    have "snd (reqs ! k) \<in> set (map snd reqs)" using k by simp
    then have "snd (reqs ! k) \<notin> set (transferred (trace t))" using assms(5) by blast
    then have r0: "receivers (snd (reqs ! k)) (trace t) = []" by (rule receivers_not_transferred)
    show ?thesis
      unfolding run
      using fresh [of "nextWorker t + k"] r0 postedTo_spawnEffects [OF k]
        receivers_spawnEffects [OF k assms(4)]
      by simp
  qed
  have a: "backgroundWorkers t' = backgroundWorkers t @ [nextWorker t ..< nextWorker t + length reqs]"
    and b: "trace t' = trace t @ spawnEffects (nextWorker t) (length (backgroundWorkers t)) reqs"
    unfolding run by simp_all
  show ?thesis
    unfolding Let_def t'_def [symmetric] using a b each by blast
qed

theorem boot_fan_out_witness:
  "foregroundWorker (newBasedPyrightTransport sampleEnv 0 sampleOptions) \<noteq> None
   \<and> trace (bpRun sampleEnv (newBasedPyrightTransport sampleEnv 0 sampleOptions)
        (map (\<lambda>r. BpMessage (spawnRequest r)) [(JObj [(''cwd'', JStr ''/'')], 7), (JNull, 9)]))
     = [NewWorker 0 ''BasedPyright-foreground'',
        PostMessage 0 (PostedValue (JObj [(''type'', JStr ''browser/boot''),
                                          (''mode'', JStr ''foreground'')])) [],
        NewWorker 1 ''BasedPyright-background-1'',
        PostMessage 1 (PostedValue (JObj [(''type'', JStr ''browser/boot''),
                                          (''mode'', JStr ''background''),
                                          (''initialData'', JObj [(''cwd'', JStr ''/'')]),
                                          (''port'', JPort 7)])) [7],
        NewWorker 2 ''BasedPyright-background-2'',
        PostMessage 2 (PostedValue (JObj [(''type'', JStr ''browser/boot''),
                                          (''mode'', JStr ''background''),
                                          (''initialData'', JNull),
                                          (''port'', JPort 9)])) [9]]
   \<and> backgroundWorkers (bpRun sampleEnv (newBasedPyrightTransport sampleEnv 0 sampleOptions)
        (map (\<lambda>r. BpMessage (spawnRequest r)) [(JObj [(''cwd'', JStr ''/'')], 7), (JNull, 9)]))
     = [1, 2]"
  using boot_fan_out
    [where env = sampleEnv and n = 0 and opts = sampleOptions and ops = "[]"
       and t = "newBasedPyrightTransport sampleEnv 0 sampleOptions"
       and reqs = "[(JObj [(''cwd'', JStr ''/'')], 7), (JNull, 9)]"]
  by (simp add: bp_defs)

end
